theory Spec2Isabelle
  imports Main
begin

section \<open>Python values\<close>

text \<open>
  The script \<^verbatim>\<open>weather.py\<close> works on the objects that \<^verbatim>\<open>response.json()\<close> returns:
  \<^verbatim>\<open>None\<close>, booleans, unbounded integers, floats, strings, lists and dictionaries with
  string keys. A float \<open>FFinite s m e\<close> denotes \<open>(-1)^s * m * 2^e\<close>; \<open>FInf s\<close> is the signed
  infinity and \<open>FNaN\<close> not-a-number (the JSON decoder accepts \<^verbatim>\<open>Infinity\<close> and \<^verbatim>\<open>NaN\<close>).
  A string is the list of its code points, as far as the type \<open>char\<close> reaches: those below
  256 (Latin-1).
\<close>

datatype pyfloat = FFinite bool nat int | FInf bool | FNaN

datatype pyval =
    PNone
  | PBool bool
  | PInt int
  | PFloat pyfloat
  | PStr string
  | PList "pyval list"
  | PDict "(string \<times> pyval) list"

datatype pykey = KStr string | KInt int

datatype pyerror =
    KeyError pykey
  | IndexError
  | TypeError
  | AttributeError
  | ValueError
  | OverflowError
  | OSError
  | RuntimeError
  | RequestException
  | RequestsConnectionError
  | RequestsTimeout
  | HTTPError nat
  | RequestsJSONDecodeError

text \<open>A call that may raise returns \<open>Inl\<close> of the exception; \<open>bnd\<close> sequences two of them.\<close>

definition bnd :: "'e + 'a \<Rightarrow> ('a \<Rightarrow> 'e + 'b) \<Rightarrow> 'e + 'b" where
  "bnd r f = (case r of Inl e \<Rightarrow> Inl e | Inr v \<Rightarrow> f v)"

subsection \<open>Subscripting: \<^verbatim>\<open>obj[key]\<close>\<close>

definition py_index :: "nat \<Rightarrow> int \<Rightarrow> nat option" where
  "py_index n i =
     (let j = (if i < 0 then i + int n else i)
      in if 0 \<le> j \<and> j < int n then Some (nat j) else None)"

fun getitem :: "pyval \<Rightarrow> pykey \<Rightarrow> pyerror + pyval" where
  "getitem (PDict d) (KStr s) =
     (case map_of d s of None \<Rightarrow> Inl (KeyError (KStr s)) | Some v \<Rightarrow> Inr v)"
| "getitem (PDict d) (KInt i) = Inl (KeyError (KInt i))"
| "getitem (PList xs) (KInt i) =
     (case py_index (length xs) i of None \<Rightarrow> Inl IndexError | Some j \<Rightarrow> Inr (xs ! j))"
| "getitem (PStr s) (KInt i) =
     (case py_index (length s) i of None \<Rightarrow> Inl IndexError | Some j \<Rightarrow> Inr (PStr [s ! j]))"
| "getitem v k = Inl TypeError"

subsection \<open>\<^verbatim>\<open>str.title()\<close>\<close>

text \<open>
  The letters that have both cases below 256: the 26 letters of ASCII, and the letters
  U+00C0 to U+00DE over U+00E0 to U+00FE; U+00D7 and U+00F7 are the multiplication and the
  division sign, not letters.
\<close>

definition latin1_uppercase :: string where
  "latin1_uppercase =
     ''ABCDEFGHIJKLMNOPQRSTUVWXYZ''
     @ [CHR 0xC0, CHR 0xC1, CHR 0xC2, CHR 0xC3, CHR 0xC4, CHR 0xC5, CHR 0xC6, CHR 0xC7,
        CHR 0xC8, CHR 0xC9, CHR 0xCA, CHR 0xCB, CHR 0xCC, CHR 0xCD, CHR 0xCE, CHR 0xCF,
        CHR 0xD0, CHR 0xD1, CHR 0xD2, CHR 0xD3, CHR 0xD4, CHR 0xD5, CHR 0xD6, CHR 0xD8,
        CHR 0xD9, CHR 0xDA, CHR 0xDB, CHR 0xDC, CHR 0xDD, CHR 0xDE]"

definition latin1_lowercase :: string where
  "latin1_lowercase =
     ''abcdefghijklmnopqrstuvwxyz''
     @ [CHR 0xE0, CHR 0xE1, CHR 0xE2, CHR 0xE3, CHR 0xE4, CHR 0xE5, CHR 0xE6, CHR 0xE7,
        CHR 0xE8, CHR 0xE9, CHR 0xEA, CHR 0xEB, CHR 0xEC, CHR 0xED, CHR 0xEE, CHR 0xEF,
        CHR 0xF0, CHR 0xF1, CHR 0xF2, CHR 0xF3, CHR 0xF4, CHR 0xF5, CHR 0xF6, CHR 0xF8,
        CHR 0xF9, CHR 0xFA, CHR 0xFB, CHR 0xFC, CHR 0xFD, CHR 0xFE]"

text \<open>
  Cased as well, without a counterpart below 256: the ordinal indicators U+00AA and
  U+00BA, the micro sign U+00B5, the sharp s U+00DF and the y with diaeresis U+00FF.
\<close>

definition latin1_other_cased :: string where
  "latin1_other_cased = [CHR 0xAA, CHR 0xB5, CHR 0xBA, CHR 0xDF, CHR 0xFF]"

definition is_cased :: "char \<Rightarrow> bool" where
  "is_cased c = (c \<in> set (latin1_lowercase @ latin1_uppercase @ latin1_other_cased))"

definition to_lower :: "char \<Rightarrow> char" where
  "to_lower c =
     (case map_of (zip latin1_uppercase latin1_lowercase) c of None \<Rightarrow> c | Some l \<Rightarrow> l)"

text \<open>
  The title case of a character may be two characters: that of the sharp s is \<open>Ss\<close>. The
  title case of U+00B5 is U+039C and that of U+00FF is U+0178, which no \<open>char\<close> holds: on
  these two \<open>to_title\<close> is not the function of Python, and the properties of \<open>title\<close> are
  stated for the strings without them.
\<close>

definition beyond_latin1 :: string where
  "beyond_latin1 = [CHR 0xB5, CHR 0xFF]"

definition to_title :: "char \<Rightarrow> string" where
  "to_title c =
     (if c = CHR 0xDF then ''Ss''
      else case map_of (zip latin1_lowercase latin1_uppercase) c of
             None \<Rightarrow> [c]
           | Some u \<Rightarrow> [u])"

text \<open>
  A character that follows a cased character is lowered, any other is put in title case.
\<close>

fun title_from :: "bool \<Rightarrow> string \<Rightarrow> string" where
  "title_from previous_is_cased [] = []"
| "title_from previous_is_cased (c # cs) =
     (if previous_is_cased then [to_lower c] else to_title c) @ title_from (is_cased c) cs"

definition title :: "string \<Rightarrow> string" where
  "title s = title_from False s"

fun py_title :: "pyval \<Rightarrow> pyerror + pyval" where
  "py_title (PStr s) = Inr (PStr (title s))"
| "py_title v = Inl AttributeError"

subsection \<open>Floats: rounding to binary64, multiplication, conversion from \<^verbatim>\<open>int\<close>\<close>

fun bitlen :: "nat \<Rightarrow> nat" where
  "bitlen n = (if n = 0 then 0 else Suc (bitlen (n div 2)))"

text \<open>
  \<open>round_half_even n d\<close> is the integer nearest to \<open>n / d\<close>, a tie going to the even one.
\<close>

definition round_half_even :: "nat \<Rightarrow> nat \<Rightarrow> nat" where
  "round_half_even n d =
     (let q = n div d; r = n mod d
      in if d < 2 * r \<or> (2 * r = d \<and> odd q) then q + 1 else q)"

text \<open>
  \<open>round_to_double m e\<close> rounds \<open>m * 2^e\<close> to the nearest binary64 value (53 bits, least
  exponent \<open>-1074\<close>, ties to even); \<open>None\<close> when the result is beyond the largest double.
\<close>

definition round_to_double :: "nat \<Rightarrow> int \<Rightarrow> (nat \<times> int) option" where
  "round_to_double m e =
     (let t = max (e + int (bitlen m) - 53) (- 1074);
          q = (if t \<le> e then m * 2 ^ nat (e - t) else round_half_even m (2 ^ nat (t - e)))
      in if q = 0 then Some (0, 0)
         else if 1024 < int (bitlen q) + t then None
         else Some (q, t))"

fun fmul :: "pyfloat \<Rightarrow> pyfloat \<Rightarrow> pyfloat" where
  "fmul (FFinite s1 m1 e1) (FFinite s2 m2 e2) =
     (case round_to_double (m1 * m2) (e1 + e2) of
        None \<Rightarrow> FInf (s1 \<noteq> s2)
      | Some (m, e) \<Rightarrow> FFinite (s1 \<noteq> s2) m e)"
| "fmul (FFinite s1 m1 e1) (FInf s2) = (if m1 = 0 then FNaN else FInf (s1 \<noteq> s2))"
| "fmul (FInf s1) (FFinite s2 m2 e2) = (if m2 = 0 then FNaN else FInf (s1 \<noteq> s2))"
| "fmul (FInf s1) (FInf s2) = FInf (s1 \<noteq> s2)"
| "fmul x y = FNaN"

definition int_to_float :: "int \<Rightarrow> pyerror + pyfloat" where
  "int_to_float i =
     (case round_to_double (nat \<bar>i\<bar>) 0 of
        None \<Rightarrow> Inl OverflowError
      | Some (m, e) \<Rightarrow> Inr (FFinite (i < 0) m e))"

definition int_of_bool :: "bool \<Rightarrow> int" where
  "int_of_bool b = (if b then 1 else 0)"

text \<open>\<^verbatim>\<open>x * n\<close> for an \<^verbatim>\<open>int\<close> \<open>n\<close>: arithmetic on numbers, repetition on sequences.\<close>

fun py_mul :: "pyval \<Rightarrow> int \<Rightarrow> pyerror + pyval" where
  "py_mul (PInt i) n = Inr (PInt (i * n))"
| "py_mul (PBool b) n = Inr (PInt (int_of_bool b * n))"
| "py_mul (PFloat x) n = bnd (int_to_float n) (\<lambda>y. Inr (PFloat (fmul x y)))"
| "py_mul (PStr s) n = Inr (PStr (concat (replicate (nat n) s)))"
| "py_mul (PList xs) n = Inr (PList (concat (replicate (nat n) xs)))"
| "py_mul v n = Inl TypeError"

subsection \<open>Text of numbers: \<^verbatim>\<open>str(int)\<close> and the format specification \<^verbatim>\<open>.Nf\<close>\<close>

definition digit_char :: "nat \<Rightarrow> char" where
  "digit_char d = ''0123456789'' ! d"

fun decimal_digits :: "nat \<Rightarrow> string" where
  "decimal_digits n =
     (if 10 \<le> n then decimal_digits (n div 10) else []) @ [digit_char (n mod 10)]"

definition str_of_int :: "int \<Rightarrow> string" where
  "str_of_int i =
     (if 0 \<le> i then decimal_digits (nat i) else CHR ''-'' # decimal_digits (nat \<bar>i\<bar>))"

definition float_fraction :: "nat \<Rightarrow> int \<Rightarrow> nat \<times> nat" where
  "float_fraction m e = (if 0 \<le> e then (m * 2 ^ nat e, 1) else (m, 2 ^ nat (- e)))"

text \<open>
  \<open>format_fixed p x\<close> is \<^verbatim>\<open>format(x, '.pf')\<close> for a float: the exact value of \<open>x\<close> rounded to
  \<open>p\<close> decimals, ties to even, the sign kept also when the digits are all zero.
\<close>

fun format_fixed :: "nat \<Rightarrow> pyfloat \<Rightarrow> string" where
  "format_fixed p (FFinite s m e) =
     (let k = (case float_fraction m e of (n, d) \<Rightarrow> round_half_even (n * 10 ^ p) d);
          whole = decimal_digits (k div 10 ^ p);
          frac = decimal_digits (k mod 10 ^ p)
      in (if s then ''-'' else [])
         @ whole
         @ (if p = 0 then [] else ''.'' @ replicate (p - length frac) (CHR ''0'') @ frac))"
| "format_fixed p (FInf s) = (if s then ''-inf'' else ''inf'')"
| "format_fixed p FNaN = ''nan''"

text \<open>
  \<^verbatim>\<open>format(v, '.pf')\<close> for any value: an \<^verbatim>\<open>int\<close> or \<^verbatim>\<open>bool\<close> is converted to a float first
  (\<^verbatim>\<open>OverflowError\<close> when it is too large), a string has no format code \<^verbatim>\<open>f\<close>, the other
  types accept no format specification.
\<close>

fun py_format_f :: "nat \<Rightarrow> pyval \<Rightarrow> pyerror + string" where
  "py_format_f p (PFloat x) = Inr (format_fixed p x)"
| "py_format_f p (PInt i) = bnd (int_to_float i) (\<lambda>x. Inr (format_fixed p x))"
| "py_format_f p (PBool b) = bnd (int_to_float (int_of_bool b)) (\<lambda>x. Inr (format_fixed p x))"
| "py_format_f p (PStr s) = Inl ValueError"
| "py_format_f p v = Inl TypeError"

text \<open>
  \<^verbatim>\<open>str(v)\<close>, which an f-string field without format specification applies. The text of
  a float, a list or a dictionary is CPython's \<^verbatim>\<open>repr\<close>, which is no part of this
  program: it is the parameter \<open>repr\<close>.
\<close>

fun py_str :: "(pyval \<Rightarrow> string) \<Rightarrow> pyval \<Rightarrow> string" where
  "py_str repr (PStr s) = s"
| "py_str repr (PInt i) = str_of_int i"
| "py_str repr (PBool b) = (if b then ''True'' else ''False'')"
| "py_str repr PNone = ''None''"
| "py_str repr v = repr v"

section \<open>Logging\<close>

text \<open>
  A log record is its level and its message; \<open>LogError msg e\<close> is
  \<^verbatim>\<open>logging.error(f"msg{e}")\<close>, the message followed by the text of the exception.
  Every function returns the records it has emitted, in order.
\<close>

datatype log_record = LogInfo string | LogWarning string | LogError string pyerror

section \<open>The Projector: \<^verbatim>\<open>process_weather_data\<close>\<close>

text \<open>
  The body of the \<^verbatim>\<open>try\<close> block: the subscripts in the order Python evaluates them
  (\<^verbatim>\<open>current\<close>, \<^verbatim>\<open>daily\<close>, then the entries of the dictionary display from first to last).
\<close>

definition process_weather_body :: "pyval \<Rightarrow> pyerror + pyval" where
  "process_weather_body data =
     bnd (getitem data (KStr ''current'')) (\<lambda>current.
     bnd (bnd (getitem data (KStr ''daily'')) (\<lambda>d. getitem d (KInt 0))) (\<lambda>daily.
     bnd (getitem current (KStr ''temp'')) (\<lambda>temp_current.
     bnd (getitem current (KStr ''feels_like'')) (\<lambda>feels_like.
     bnd (getitem current (KStr ''humidity'')) (\<lambda>humidity.
     bnd (getitem current (KStr ''wind_speed'')) (\<lambda>wind.
     bnd (bnd (bnd (bnd (getitem current (KStr ''weather'')) (\<lambda>w. getitem w (KInt 0)))
                 (\<lambda>w0. getitem w0 (KStr ''description'')))
            py_title) (\<lambda>report.
     bnd (bnd (bnd (getitem current (KStr ''weather'')) (\<lambda>w. getitem w (KInt 0)))
            (\<lambda>w0. getitem w0 (KStr ''icon''))) (\<lambda>icon_code.
     bnd (bnd (getitem daily (KStr ''temp'')) (\<lambda>t. getitem t (KStr ''max''))) (\<lambda>temp_max.
     bnd (bnd (getitem daily (KStr ''temp'')) (\<lambda>t. getitem t (KStr ''min''))) (\<lambda>temp_min.
     bnd (bnd (getitem daily (KStr ''pop'')) (\<lambda>pop. py_mul pop 100)) (\<lambda>precip_percent.
     Inr (PDict
       [(''temp_current'', temp_current),
        (''feels_like'', feels_like),
        (''humidity'', humidity),
        (''wind'', wind),
        (''report'', report),
        (''icon_code'', icon_code),
        (''temp_max'', temp_max),
        (''temp_min'', temp_min),
        (''precip_percent'', precip_percent)]))))))))))))"

fun is_KeyError :: "pyerror \<Rightarrow> bool" where
  "is_KeyError (KeyError k) = True"
| "is_KeyError e = False"

text \<open>
  The handler is \<^verbatim>\<open>except KeyError\<close>: a \<^verbatim>\<open>KeyError\<close> is logged and raised again, any other
  exception leaves the function without a log record.
\<close>

definition process_weather_data :: "pyval \<Rightarrow> log_record list \<times> (pyerror + pyval)" where
  "process_weather_data data =
     (case process_weather_body data of
        Inr weather_data \<Rightarrow>
          ([LogInfo ''Weather data processed successfully.''], Inr weather_data)
      | Inl e \<Rightarrow>
          (if is_KeyError e then [LogError ''Error processing weather data: '' e] else [],
           Inl e))"

section \<open>The world outside the script\<close>

text \<open>
  Images are kept as what the imaging library is told to do: a bitmap has a mode, a size
  and the source of its pixels (a fill colour, or a file that was decoded), and an image
  being composed is a bitmap with the overlays put on it, in order. Rasterising a font and
  decoding a file are no part of this program.
\<close>

datatype pixels = Fill nat | FromFile string

record bitmap =
  im_mode :: string
  im_size :: "nat \<times> nat"
  im_pixels :: pixels

datatype overlay =
    Pasted bitmap "nat \<times> nat"
  | Drawn "nat \<times> nat" string nat nat

record image =
  canvas :: bitmap
  overlays :: "overlay list"

datatype buffer = Buffer image

datatype fs_file = ImageFile string "nat \<times> nat" | FontFile | OtherFile

datatype http_response = Response nat "pyerror + pyval"

text \<open>
  The panel driver \<^verbatim>\<open>waveshare_epd.epd7in5b_V2\<close>: the resolution it reports and, for each
  of its calls, the exception the call raises, if any.
\<close>

record epd_driver =
  epd_width :: nat
  epd_height :: nat
  epd_new_error :: "pyerror option"
  epd_init_error :: "pyerror option"
  epd_clear_error :: "pyerror option"
  epd_getbuffer_error :: "image \<Rightarrow> pyerror option"
  epd_display_error :: "pyerror option"
  epd_sleep_error :: "pyerror option"

text \<open>
  Everything the script reads from outside: the environment after \<^verbatim>\<open>load_dotenv()\<close>, the
  directory of the script, the files, the wall clock as hour and minute, the answer of
  the weather provider to \<^verbatim>\<open>requests.get(url, timeout)\<close> (an exception, or a response with
  its status code and what \<^verbatim>\<open>.json()\<close> gives), the panel driver, and CPython's \<^verbatim>\<open>repr\<close>.
  The imports at the top of the script are taken to have succeeded.
\<close>

record world =
  environ :: "string \<Rightarrow> string option"
  script_dir :: string
  files :: "string \<Rightarrow> fs_file option"
  clock :: "nat \<times> nat"
  http_get :: "string \<Rightarrow> nat \<Rightarrow> pyerror + http_response"
  epd :: epd_driver
  repr_of :: "pyval \<Rightarrow> string"

text \<open>What the script does to the outside: the request it sends and the calls to the panel.\<close>

datatype effect =
    HttpGet string nat
  | EpdNew
  | EpdInit
  | EpdClear
  | EpdGetbuffer image
  | EpdDisplay buffer buffer
  | EpdSleep

fun is_hardware :: "effect \<Rightarrow> bool" where
  "is_hardware (HttpGet url t) = False"
| "is_hardware c = True"

subsection \<open>Configuration\<close>

definition LATITUDE :: string where "LATITUDE = ''61.4285''"
definition LONGITUDE :: string where "LONGITUDE = ''23.8783''"
definition UNITS :: string where "UNITS = ''metric''"
definition BASE_URL :: string where
  "BASE_URL = ''https://api.openweathermap.org/data/3.0/onecall''"

definition COLOR_BLACK :: nat where "COLOR_BLACK = 0"
definition COLOR_WHITE :: nat where "COLOR_WHITE = 255"

definition os_path_join :: "string \<Rightarrow> string \<Rightarrow> string" where
  "os_path_join a b =
     (if b \<noteq> [] \<and> hd b = CHR ''/'' then b
      else if a = [] \<or> last a = CHR ''/'' then a @ b
      else a @ ''/'' @ b)"

definition os_path_exists :: "world \<Rightarrow> string \<Rightarrow> bool" where
  "os_path_exists w path = (files w path \<noteq> None)"

definition FONT_DIR :: "world \<Rightarrow> string" where
  "FONT_DIR w = os_path_join (script_dir w) ''font''"

definition PIC_DIR :: "world \<Rightarrow> string" where
  "PIC_DIR w = os_path_join (script_dir w) ''pic''"

definition ICON_DIR :: "world \<Rightarrow> string" where
  "ICON_DIR w = os_path_join (PIC_DIR w) ''icon''"

section \<open>The Fetcher: \<^verbatim>\<open>fetch_weather_data\<close>\<close>

definition request_url :: "string \<Rightarrow> string" where
  "request_url api_key =
     BASE_URL @ ''?lat='' @ LATITUDE @ ''&lon='' @ LONGITUDE
       @ ''&units='' @ UNITS @ ''&appid='' @ api_key"

fun is_RequestException :: "pyerror \<Rightarrow> bool" where
  "is_RequestException RequestException = True"
| "is_RequestException RequestsConnectionError = True"
| "is_RequestException RequestsTimeout = True"
| "is_RequestException (HTTPError s) = True"
| "is_RequestException RequestsJSONDecodeError = True"
| "is_RequestException e = False"

text \<open>\<^verbatim>\<open>raise_for_status()\<close> raises for the status codes 400 to 599.\<close>

fun raise_for_status :: "http_response \<Rightarrow> pyerror + unit" where
  "raise_for_status (Response status body) =
     (if 400 \<le> status \<and> status < 600 then Inl (HTTPError status) else Inr ())"

fun response_json :: "http_response \<Rightarrow> pyerror + pyval" where
  "response_json (Response status body) = body"

text \<open>
  The handler is \<^verbatim>\<open>except requests.RequestException\<close>. The success record is written
  before \<^verbatim>\<open>response.json()\<close> is evaluated.
\<close>

definition fetch_failed :: "log_record list \<Rightarrow> pyerror \<Rightarrow> log_record list" where
  "fetch_failed lg e =
     lg @ (if is_RequestException e then [LogError ''Failed to fetch weather data: '' e] else [])"

definition fetch_weather_data ::
  "world \<Rightarrow> string \<Rightarrow> log_record list \<times> effect list \<times> (pyerror + pyval)" where
  "fetch_weather_data w api_key =
     (let url = request_url api_key
      in case http_get w url 10 of
           Inl e \<Rightarrow> (fetch_failed [] e, [HttpGet url 10], Inl e)
         | Inr response \<Rightarrow>
             (case raise_for_status response of
                Inl e \<Rightarrow> (fetch_failed [] e, [HttpGet url 10], Inl e)
              | Inr u \<Rightarrow>
                  (case response_json response of
                     Inl e \<Rightarrow>
                       (fetch_failed [LogInfo ''Weather data fetched successfully.''] e,
                        [HttpGet url 10], Inl e)
                   | Inr data \<Rightarrow>
                       ([LogInfo ''Weather data fetched successfully.''],
                        [HttpGet url 10], Inr data))))"

section \<open>The Renderer: \<^verbatim>\<open>generate_display_image\<close>\<close>

definition Image_new :: "string \<Rightarrow> nat \<times> nat \<Rightarrow> nat \<Rightarrow> bitmap" where
  "Image_new mode sz color = \<lparr>im_mode = mode, im_size = sz, im_pixels = Fill color\<rparr>"

text \<open>\<^verbatim>\<open>Image.open(path)\<close>: the file must be there and must be an image.\<close>

definition Image_open :: "world \<Rightarrow> string \<Rightarrow> pyerror + bitmap" where
  "Image_open w path =
     (case files w path of
        Some (ImageFile mode sz) \<Rightarrow>
          Inr \<lparr>im_mode = mode, im_size = sz, im_pixels = FromFile path\<rparr>
      | Some f \<Rightarrow> Inl OSError
      | None \<Rightarrow> Inl OSError)"

definition convert :: "string \<Rightarrow> bitmap \<Rightarrow> bitmap" where
  "convert mode b = b\<lparr>im_mode := mode\<rparr>"

definition paste :: "image \<Rightarrow> bitmap \<Rightarrow> nat \<times> nat \<Rightarrow> image" where
  "paste im b box = im\<lparr>overlays := overlays im @ [Pasted b box]\<rparr>"

definition pad2 :: "nat \<Rightarrow> string" where
  "pad2 n = (if n < 10 then ''0'' else []) @ decimal_digits n"

text \<open>\<^verbatim>\<open>datetime.now().strftime('%H:%M')\<close>\<close>

definition strftime_HM :: "nat \<times> nat \<Rightarrow> string" where
  "strftime_HM t = pad2 (fst t) @ '':'' @ pad2 (snd t)"

definition degree_C :: string where
  "degree_C = [CHR 0xB0, CHR ''C'']"

text \<open>
  The ten calls of \<^verbatim>\<open>draw.text\<close>, in the order of the source: position, text, font size
  and fill. Building the text of a call may raise (a missing key, a value that the format
  specification does not accept).
\<close>

definition text_overlays :: "world \<Rightarrow> pyval \<Rightarrow> (pyerror + overlay) list" where
  "text_overlays w weather_data =
     [bnd (getitem weather_data (KStr ''report'')) (\<lambda>v.
        Inr (Drawn (30, 200) (''Now: '' @ py_str (repr_of w) v) 22 COLOR_BLACK)),
      bnd (getitem weather_data (KStr ''precip_percent'')) (\<lambda>v.
        bnd (py_format_f 0 v) (\<lambda>s.
          Inr (Drawn (30, 240) (''Precip: '' @ s @ ''%'') 30 COLOR_BLACK))),
      bnd (getitem weather_data (KStr ''temp_current'')) (\<lambda>v.
        bnd (py_format_f 0 v) (\<lambda>s.
          Inr (Drawn (375, 35) (s @ degree_C) 160 COLOR_BLACK))),
      bnd (getitem weather_data (KStr ''feels_like'')) (\<lambda>v.
        bnd (py_format_f 0 v) (\<lambda>s.
          Inr (Drawn (350, 210) (''Feels like: '' @ s @ degree_C) 50 COLOR_BLACK))),
      bnd (getitem weather_data (KStr ''temp_max'')) (\<lambda>v.
        bnd (py_format_f 0 v) (\<lambda>s.
          Inr (Drawn (35, 325) (''High: '' @ s @ degree_C) 50 COLOR_BLACK))),
      bnd (getitem weather_data (KStr ''temp_min'')) (\<lambda>v.
        bnd (py_format_f 0 v) (\<lambda>s.
          Inr (Drawn (35, 390) (''Low: '' @ s @ degree_C) 50 COLOR_BLACK))),
      bnd (getitem weather_data (KStr ''humidity'')) (\<lambda>v.
        Inr (Drawn (345, 340) (''Humidity: '' @ py_str (repr_of w) v @ ''%'') 30 COLOR_BLACK)),
      bnd (getitem weather_data (KStr ''wind'')) (\<lambda>v.
        bnd (py_format_f 1 v) (\<lambda>s.
          Inr (Drawn (345, 400) (''Wind: '' @ s @ '' m/s'') 30 COLOR_BLACK))),
      Inr (Drawn (627, 330) ''UPDATED'' 35 COLOR_WHITE),
      Inr (Drawn (627, 375) (strftime_HM (clock w)) 60 COLOR_WHITE)]"

fun draw_each :: "(pyerror + overlay) list \<Rightarrow> image \<Rightarrow> pyerror + image" where
  "draw_each [] im = Inr im"
| "draw_each (t # ts) im =
     (case t of
        Inl e \<Rightarrow> Inl e
      | Inr ov \<Rightarrow> draw_each ts (im\<lparr>overlays := overlays im @ [ov]\<rparr>))"

text \<open>The background: the template file when it exists, else a blank white canvas.\<close>

definition load_template :: "world \<Rightarrow> log_record list \<times> (pyerror + image)" where
  "load_template w =
     (let template_path = os_path_join (PIC_DIR w) ''template.png''
      in if \<not> os_path_exists w template_path
         then ([LogWarning ''template.png not found. Creating a blank white background.''],
               Inr \<lparr>canvas = Image_new ''1'' (800, 480) COLOR_WHITE, overlays = []\<rparr>)
         else ([], bnd (Image_open w template_path) (\<lambda>b.
                     Inr \<lparr>canvas = convert ''1'' b, overlays = []\<rparr>)))"

text \<open>The icon: pasted at \<open>(40, 15)\<close> when its file exists, else a warning.\<close>

definition draw_icon ::
  "world \<Rightarrow> pyval \<Rightarrow> image \<Rightarrow> log_record list \<times> (pyerror + image)" where
  "draw_icon w weather_data template =
     (case getitem weather_data (KStr ''icon_code'') of
        Inl e \<Rightarrow> ([], Inl e)
      | Inr icon_code \<Rightarrow>
          (let icon_path = os_path_join (ICON_DIR w) (py_str (repr_of w) icon_code @ ''.png'')
           in if os_path_exists w icon_path
              then ([], bnd (Image_open w icon_path) (\<lambda>icon_image.
                          Inr (paste template (convert ''1'' icon_image) (40, 15))))
              else ([LogWarning (''Weather icon '' @ py_str (repr_of w) icon_code
                                   @ ''.png not found.'')],
                    Inr template)))"

definition generate_display_body ::
  "world \<Rightarrow> pyval \<Rightarrow> log_record list \<times> (pyerror + image)" where
  "generate_display_body w weather_data =
     (case load_template w of
        (log1, Inl e) \<Rightarrow> (log1, Inl e)
      | (log1, Inr template) \<Rightarrow>
          (case draw_icon w weather_data template of
             (log2, Inl e) \<Rightarrow> (log1 @ log2, Inl e)
           | (log2, Inr template2) \<Rightarrow>
               (case draw_each (text_overlays w weather_data) template2 of
                  Inl e \<Rightarrow> (log1 @ log2, Inl e)
                | Inr template3 \<Rightarrow>
                    (log1 @ log2 @ [LogInfo ''Display image generated successfully.''],
                     Inr template3))))"

text \<open>The handler is \<^verbatim>\<open>except Exception\<close>: every exception is logged and raised again.\<close>

definition generate_display_image ::
  "world \<Rightarrow> pyval \<Rightarrow> log_record list \<times> (pyerror + image)" where
  "generate_display_image w weather_data =
     (case generate_display_body w weather_data of
        (lg, Inl e) \<Rightarrow> (lg @ [LogError ''Error generating display image: '' e], Inl e)
      | (lg, Inr template) \<Rightarrow> (lg, Inr template))"

section \<open>The Presenter: \<^verbatim>\<open>display_image\<close>\<close>

text \<open>
  The statements of the \<^verbatim>\<open>try\<close> block are run one after the other: a log record is
  written, a call to the driver is made and either returns or raises, which ends the
  block. The calls made, the failing one included, are the trace.
\<close>

datatype action = Log log_record | Call effect "pyerror option"

fun run_actions :: "action list \<Rightarrow> log_record list \<times> effect list \<times> pyerror option" where
  "run_actions [] = ([], [], None)"
| "run_actions (Log r # rest) =
     (case run_actions rest of (lg, tr, res) \<Rightarrow> (r # lg, tr, res))"
| "run_actions (Call c err # rest) =
     (case err of
        Some e \<Rightarrow> ([], [c], Some e)
      | None \<Rightarrow> (case run_actions rest of (lg, tr, res) \<Rightarrow> (lg, c # tr, res)))"

definition display_actions :: "world \<Rightarrow> image \<Rightarrow> action list" where
  "display_actions w black_image =
     (let drv = epd w;
          red_image =
            \<lparr>canvas = Image_new ''1'' (epd_width drv, epd_height drv) COLOR_WHITE,
             overlays = []\<rparr>
      in [Log (LogInfo ''Initializing E-Paper display...''),
          Call EpdNew (epd_new_error drv),
          Call EpdInit (epd_init_error drv),
          Call EpdClear (epd_clear_error drv),
          Log (LogInfo ''Sending image to screen (this takes ~15-20 seconds)...''),
          Call (EpdGetbuffer black_image) (epd_getbuffer_error drv black_image),
          Call (EpdGetbuffer red_image) (epd_getbuffer_error drv red_image),
          Call (EpdDisplay (Buffer black_image) (Buffer red_image)) (epd_display_error drv),
          Log (LogInfo ''Putting display to sleep.''),
          Call EpdSleep (epd_sleep_error drv)])"

definition display_image ::
  "world \<Rightarrow> image \<Rightarrow> log_record list \<times> effect list \<times> (pyerror + unit)" where
  "display_image w black_image =
     (case run_actions (display_actions w black_image) of
        (lg, tr, None) \<Rightarrow> (lg, tr, Inr ())
      | (lg, tr, Some e) \<Rightarrow> (lg @ [LogError ''Failed to display image: '' e], tr, Inl e))"

section \<open>The driver: \<^verbatim>\<open>main\<close> and the module\<close>

record run =
  exit_status :: nat
  logged :: "log_record list"
  performed :: "effect list"
  uncaught :: "pyerror option"

definition main_body ::
  "world \<Rightarrow> string \<Rightarrow> log_record list \<times> effect list \<times> (pyerror + unit)" where
  "main_body w api_key =
     (let started = [LogInfo ''--- Weather Script Started ---'']
      in case fetch_weather_data w api_key of
           (l1, t1, Inl e) \<Rightarrow> (started @ l1, t1, Inl e)
         | (l1, t1, Inr raw_data) \<Rightarrow>
             (case process_weather_data raw_data of
                (l2, Inl e) \<Rightarrow> (started @ l1 @ l2, t1, Inl e)
              | (l2, Inr weather_data) \<Rightarrow>
                  (case generate_display_image w weather_data of
                     (l3, Inl e) \<Rightarrow> (started @ l1 @ l2 @ l3, t1, Inl e)
                   | (l3, Inr black_image) \<Rightarrow>
                       (case display_image w black_image of
                          (l4, t4, Inl e) \<Rightarrow> (started @ l1 @ l2 @ l3 @ l4, t1 @ t4, Inl e)
                        | (l4, t4, Inr u) \<Rightarrow>
                            (started @ l1 @ l2 @ l3 @ l4
                               @ [LogInfo ''--- Weather Script Finished Successfully ---''],
                             t1 @ t4, Inr ())))))"

text \<open>
  \<^verbatim>\<open>main\<close> catches every exception, logs it and leaves with \<^verbatim>\<open>sys.exit(1)\<close>; when nothing
  was raised the interpreter ends with status 0.
\<close>

definition main :: "world \<Rightarrow> string \<Rightarrow> run" where
  "main w api_key =
     (case main_body w api_key of
        (lg, tr, Inr u) \<Rightarrow>
          \<lparr>exit_status = 0, logged = lg, performed = tr, uncaught = None\<rparr>
      | (lg, tr, Inl e) \<Rightarrow>
          \<lparr>exit_status = 1,
           logged = lg @ [LogError ''An unexpected error occurred in main loop: '' e],
           performed = tr, uncaught = None\<rparr>)"

text \<open>
  An exception at module level is caught by nobody: the interpreter prints the traceback
  and ends with status 1, and nothing was logged or done.
\<close>

definition traceback :: "pyerror \<Rightarrow> run" where
  "traceback e = \<lparr>exit_status = 1, logged = [], performed = [], uncaught = Some e\<rparr>"

text \<open>
  The module: \<^verbatim>\<open>API_KEY = os.getenv(...)\<close> and the test \<^verbatim>\<open>if not API_KEY\<close>, which holds for
  \<^verbatim>\<open>None\<close> and for the empty string; then the fonts, which must load; then \<^verbatim>\<open>main()\<close>.
\<close>

definition script :: "world \<Rightarrow> run" where
  "script w =
     (case environ w ''OPENWEATHER_API_KEY'' of
        None \<Rightarrow> traceback ValueError
      | Some API_KEY \<Rightarrow>
          if API_KEY = [] then traceback ValueError
          else (case files w (os_path_join (FONT_DIR w) ''Font.ttc'') of
                  Some FontFile \<Rightarrow> main w API_KEY
                | Some f \<Rightarrow> traceback OSError
                | None \<Rightarrow> traceback OSError))"

section \<open>What the properties speak of\<close>

text \<open>
  A field of the payload is named by the subscripts that reach it, as in
  \<^verbatim>\<open>current.weather[0].description\<close>; it is present when every subscript succeeds.
\<close>

fun lookup_path :: "pyval \<Rightarrow> pykey list \<Rightarrow> pyval option" where
  "lookup_path v [] = Some v"
| "lookup_path v (k # ks) = (case getitem v k of Inl e \<Rightarrow> None | Inr x \<Rightarrow> lookup_path x ks)"

definition required_fields :: "pykey list list" where
  "required_fields =
     [[KStr ''current'', KStr ''temp''],
      [KStr ''current'', KStr ''feels_like''],
      [KStr ''current'', KStr ''humidity''],
      [KStr ''current'', KStr ''wind_speed''],
      [KStr ''current'', KStr ''weather'', KInt 0, KStr ''description''],
      [KStr ''current'', KStr ''weather'', KInt 0, KStr ''icon''],
      [KStr ''daily'', KInt 0, KStr ''temp'', KStr ''max''],
      [KStr ''daily'', KInt 0, KStr ''temp'', KStr ''min''],
      [KStr ''daily'', KInt 0, KStr ''pop'']]"

definition has_all_fields :: "pyval \<Rightarrow> bool" where
  "has_all_fields p = list_all (\<lambda>path. lookup_path p path \<noteq> None) required_fields"

text \<open>
  The shape the provider gives to what is present: dictionaries where the script reads keys,
  non-empty lists where it reads the first entry, a text for the description and a number
  for the probability. A payload of this shape can only lack keys.
\<close>

fun is_dict :: "pyval \<Rightarrow> bool" where
  "is_dict (PDict d) = True"
| "is_dict v = False"

fun is_str :: "pyval \<Rightarrow> bool" where
  "is_str (PStr s) = True"
| "is_str v = False"

fun is_number :: "pyval \<Rightarrow> bool" where
  "is_number (PInt i) = True"
| "is_number (PFloat x) = True"
| "is_number v = False"

fun is_nonempty_list :: "pyval \<Rightarrow> bool" where
  "is_nonempty_list (PList (x # xs)) = True"
| "is_nonempty_list v = False"

definition shape_at :: "pyval \<Rightarrow> pykey list \<Rightarrow> (pyval \<Rightarrow> bool) \<Rightarrow> bool" where
  "shape_at p path P = (case lookup_path p path of None \<Rightarrow> True | Some v \<Rightarrow> P v)"

definition expected_shape :: "pyval \<Rightarrow> bool" where
  "expected_shape p =
     (is_dict p
      \<and> shape_at p [KStr ''current''] is_dict
      \<and> shape_at p [KStr ''current'', KStr ''weather''] is_nonempty_list
      \<and> shape_at p [KStr ''current'', KStr ''weather'', KInt 0] is_dict
      \<and> shape_at p [KStr ''current'', KStr ''weather'', KInt 0, KStr ''description''] is_str
      \<and> shape_at p [KStr ''daily''] is_nonempty_list
      \<and> shape_at p [KStr ''daily'', KInt 0] is_dict
      \<and> shape_at p [KStr ''daily'', KInt 0, KStr ''temp''] is_dict
      \<and> shape_at p [KStr ''daily'', KInt 0, KStr ''pop''] is_number)"

definition nine_fields :: "string list" where
  "nine_fields =
     [''temp_current'', ''feels_like'', ''humidity'', ''wind'', ''report'', ''icon_code'',
      ''temp_max'', ''temp_min'', ''precip_percent'']"

text \<open>
The blank white image of the size the panel reports, for the second colour channel.
\<close>

definition red_image :: "world \<Rightarrow> image" where
  "red_image w =
     \<lparr>canvas = \<lparr>im_mode = ''1'', im_size = (epd_width (epd w), epd_height (epd w)),
                im_pixels = Fill 255\<rparr>,
      overlays = []\<rparr>"

text \<open>
  What the Renderer can draw: a reading that has its nine fields, the six that are formatted
  with \<^verbatim>\<open>.0f\<close> or \<^verbatim>\<open>.1f\<close> being floats or integers that a float can hold.
\<close>

definition fits_float :: "int \<Rightarrow> bool" where
  "fits_float i = (round_to_double (nat \<bar>i\<bar>) 0 \<noteq> None)"

fun is_displayable_number :: "pyval \<Rightarrow> bool" where
  "is_displayable_number (PFloat x) = True"
| "is_displayable_number (PInt i) = fits_float i"
| "is_displayable_number v = False"

definition well_formed_reading :: "(string \<times> pyval) list \<Rightarrow> bool" where
  "well_formed_reading d =
     (list_all (\<lambda>k. case map_of d k of None \<Rightarrow> False | Some v \<Rightarrow> is_displayable_number v)
        [''precip_percent'', ''temp_current'', ''feels_like'', ''temp_max'', ''temp_min'',
         ''wind'']
      \<and> list_all (\<lambda>k. map_of d k \<noteq> None) [''report'', ''humidity'', ''icon_code''])"

definition template_path :: "world \<Rightarrow> string" where
  "template_path w = os_path_join (PIC_DIR w) ''template.png''"

definition icon_path :: "world \<Rightarrow> pyval \<Rightarrow> string" where
  "icon_path w icon_code = os_path_join (ICON_DIR w) (py_str (repr_of w) icon_code @ ''.png'')"

fun is_image_file :: "fs_file option \<Rightarrow> bool" where
  "is_image_file (Some (ImageFile mode sz)) = True"
| "is_image_file f = False"

fun is_text :: "overlay \<Rightarrow> bool" where
  "is_text (Drawn xy s font fill) = True"
| "is_text (Pasted b box) = False"

definition blank_bitmap :: bitmap where
  "blank_bitmap = \<lparr>im_mode = ''1'', im_size = (800, 480), im_pixels = Fill 255\<rparr>"

text \<open>
The number of characters after the decimal point of a text, 0 when it has none.
\<close>

definition decimal_places :: "string \<Rightarrow> nat" where
  "decimal_places s =
     (if CHR ''.'' \<in> set s then length (takeWhile (\<lambda>c. c \<noteq> CHR ''.'') (rev s)) else 0)"

section \<open>A sample run\<close>

text \<open>
  A payload as the provider sends it, with the doubles nearest to 21.6, 19.3, 3.42, 18.2,
  24.1 and 0.17, and the reading the Projector makes of it; 0.17 times 100 is the double 17.0.
  The sample world has the font, no template and no icon, and a panel of 800 by 480.
\<close>

definition float_21_6 :: pyfloat where "float_21_6 = FFinite False 6079859496950170 (- 48)"

definition float_19_3 :: pyfloat where "float_19_3 = FFinite False 5432467050515661 (- 48)"

definition float_3_42 :: pyfloat where "float_3_42 = FFinite False 7701155362803548 (- 51)"

definition float_18_2 :: pyfloat where "float_18_2 = FFinite False 5122844576133939 (- 48)"

definition float_24_1 :: pyfloat where "float_24_1 = FFinite False 6783546938726810 (- 48)"

definition float_0_17 :: pyfloat where "float_0_17 = FFinite False 6124895493223875 (- 55)"

definition float_17_0 :: pyfloat where "float_17_0 = FFinite False 4785074604081152 (- 48)"

definition sample_weather0 :: "(string \<times> pyval) list" where
  "sample_weather0 =
     [(''id'', PInt 500), (''main'', PStr ''Rain''),
      (''description'', PStr ''light rain''), (''icon'', PStr ''10d'')]"

definition sample_current :: "(string \<times> pyval) list" where
  "sample_current =
     [(''temp'', PFloat float_21_6), (''feels_like'', PFloat float_19_3),
      (''humidity'', PInt 64), (''wind_speed'', PFloat float_3_42),
      (''weather'', PList [PDict sample_weather0])]"

definition sample_daily_temp :: "(string \<times> pyval) list" where
  "sample_daily_temp = [(''min'', PFloat float_18_2), (''max'', PFloat float_24_1)]"

definition sample_daily0 :: "(string \<times> pyval) list" where
  "sample_daily0 = [(''temp'', PDict sample_daily_temp), (''pop'', PFloat float_0_17)]"

definition sample_root :: "(string \<times> pyval) list" where
  "sample_root = [(''current'', PDict sample_current), (''daily'', PList [PDict sample_daily0])]"

definition sample_reading :: pyval where
  "sample_reading = PDict
     [(''temp_current'', PFloat float_21_6),
      (''feels_like'', PFloat float_19_3),
      (''humidity'', PInt 64),
      (''wind'', PFloat float_3_42),
      (''report'', PStr ''Light Rain''),
      (''icon_code'', PStr ''10d''),
      (''temp_max'', PFloat float_24_1),
      (''temp_min'', PFloat float_18_2),
      (''precip_percent'', PFloat float_17_0)]"

definition payload_empty_daily :: pyval where
  "payload_empty_daily = PDict [(''current'', PDict sample_current), (''daily'', PList [])]"

definition payload_without_pop :: pyval where
  "payload_without_pop =
     PDict [(''current'', PDict sample_current),
            (''daily'', PList [PDict [(''temp'', PDict sample_daily_temp)]])]"

definition sample_epd :: epd_driver where
  "sample_epd =
     \<lparr>epd_width = 800, epd_height = 480, epd_new_error = None, epd_init_error = None,
      epd_clear_error = None, epd_getbuffer_error = (\<lambda>im. None), epd_display_error = None,
      epd_sleep_error = None\<rparr>"

definition sample_world :: world where
  "sample_world =
     \<lparr>environ = map_of [(''OPENWEATHER_API_KEY'', ''0123abcd'')],
      script_dir = ''/home/pi/weather'',
      files = map_of [(''/home/pi/weather/font/Font.ttc'', FontFile)],
      clock = (9, 5),
      http_get = (\<lambda>url t. Inr (Response 200 (Inr (PDict sample_root)))),
      epd = sample_epd,
      repr_of = (\<lambda>v. [])\<rparr>"

definition blank_canvas :: image where
  "blank_canvas =
     \<lparr>canvas = \<lparr>im_mode = ''1'', im_size = (800, 480), im_pixels = Fill 255\<rparr>, overlays = []\<rparr>"

text \<open>
  The image of the sample reading at 09:05, and the sample world with a request that times
  out, with a provider that answers 503, with one that answers 300 and the payload, and
  with a template file of a given size.
\<close>

definition sample_image :: image where
  "sample_image =
     \<lparr>canvas = blank_bitmap,
      overlays =
        [Drawn (30, 200) ''Now: Light Rain'' 22 0,
         Drawn (30, 240) ''Precip: 17%'' 30 0,
         Drawn (375, 35) (''22'' @ degree_C) 160 0,
         Drawn (350, 210) (''Feels like: 19'' @ degree_C) 50 0,
         Drawn (35, 325) (''High: 24'' @ degree_C) 50 0,
         Drawn (35, 390) (''Low: 18'' @ degree_C) 50 0,
         Drawn (345, 340) ''Humidity: 64%'' 30 0,
         Drawn (345, 400) ''Wind: 3.4 m/s'' 30 0,
         Drawn (627, 330) ''UPDATED'' 35 255,
         Drawn (627, 375) ''09:05'' 60 255]\<rparr>"

definition timeout_world :: world where
  "timeout_world = sample_world\<lparr>http_get := (\<lambda>url t. Inl RequestsTimeout)\<rparr>"

definition unavailable_world :: world where
  "unavailable_world = sample_world\<lparr>http_get := (\<lambda>url t. Inr (Response 503 (Inr PNone)))\<rparr>"

definition multiple_choices_world :: world where
  "multiple_choices_world =
     sample_world\<lparr>http_get := (\<lambda>url t. Inr (Response 300 (Inr (PDict sample_root))))\<rparr>"

definition template_world :: "nat \<times> nat \<Rightarrow> world" where
  "template_world sz =
     sample_world\<lparr>files := (files sample_world)
       (''/home/pi/weather/pic/template.png'' \<mapsto> ImageFile ''RGB'' sz)\<rparr>"

section \<open>Properties\<close>

lemma bnd_Inr [simp]: "bnd (Inr v) f = f v" by (simp add: bnd_def)

lemma bnd_Inl [simp]: "bnd (Inl e) f = Inl e" by (simp add: bnd_def)

lemma bnd_eq_Inr: "bnd r f = Inr y \<longleftrightarrow> (\<exists>x. r = Inr x \<and> f x = Inr y)"
  by (cases r) simp_all

lemma bnd_eq_Inl: "bnd r f = Inl e \<longleftrightarrow> r = Inl e \<or> (\<exists>x. r = Inr x \<and> f x = Inl e)"
  by (cases r) simp_all

lemmas title_simps = title_def is_cased_def to_lower_def to_title_def latin1_lowercase_def latin1_uppercase_def latin1_other_cased_def

lemmas float_simps = int_to_float_def round_to_double_def round_half_even_def float_fraction_def Let_def digit_char_def

lemma title_light_rain: "title ''light rain'' = ''Light Rain''"
  by (simp add: title_simps)

lemma title_first_letters:
  "title ''a b c d e f g h i j k l m n o p q r s t u v w x y z'' =
     ''A B C D E F G H I J K L M N O P Q R S T U V W X Y Z''"
  by (simp add: title_simps)

lemma title_later_letters:
  "title ''ABCDEFGHIJKLMNOPQRSTUVWXYZ'' = ''Abcdefghijklmnopqrstuvwxyz''"
  by (simp add: title_simps)

lemma title_latin1:
  "title (''h'' @ [CHR 0xE4] @ ''rm'' @ [CHR 0xE4]) = ''H'' @ [CHR 0xE4] @ ''rm'' @ [CHR 0xE4]"
  "title ([CHR 0xC4] @ ''ITI 3pm'') = [CHR 0xC4] @ ''iti 3Pm''"
  "title (''stra'' @ [CHR 0xDF] @ ''e '' @ [CHR 0xDF] @ ''a'') = ''Stra'' @ [CHR 0xDF] @ ''e Ssa''"
  by (simp_all add: title_simps)

lemma pop_0_17: "py_mul (PFloat float_0_17) 100 = Inr (PFloat float_17_0)"
  by (simp add: float_0_17_def float_17_0_def float_simps)

lemmas sample_floats = float_21_6_def float_19_3_def float_3_42_def float_18_2_def
  float_24_1_def float_0_17_def float_17_0_def

lemma sample_projection:
  "process_weather_data (PDict sample_root) =
     ([LogInfo ''Weather data processed successfully.''], Inr sample_reading)"
  by (simp add: process_weather_data_def process_weather_body_def py_index_def
      sample_root_def sample_current_def sample_daily0_def sample_weather0_def
      sample_daily_temp_def sample_reading_def pop_0_17 title_light_rain del: py_mul.simps)

lemma sample_texts:
  "text_overlays w sample_reading =
     map Inr
       [Drawn (30, 200) ''Now: Light Rain'' 22 0,
        Drawn (30, 240) ''Precip: 17%'' 30 0,
        Drawn (375, 35) (''22'' @ degree_C) 160 0,
        Drawn (350, 210) (''Feels like: 19'' @ degree_C) 50 0,
        Drawn (35, 325) (''High: 24'' @ degree_C) 50 0,
        Drawn (35, 390) (''Low: 18'' @ degree_C) 50 0,
        Drawn (345, 340) ''Humidity: 64%'' 30 0,
        Drawn (345, 400) ''Wind: 3.4 m/s'' 30 0,
        Drawn (627, 330) ''UPDATED'' 35 255,
        Drawn (627, 375) (strftime_HM (clock w)) 60 255]"
  by (simp add: text_overlays_def sample_reading_def sample_floats float_simps
      str_of_int_def COLOR_BLACK_def COLOR_WHITE_def)

lemma sample_render:
  "generate_display_image sample_world sample_reading =
     ([LogWarning ''template.png not found. Creating a blank white background.'',
       LogWarning ''Weather icon 10d.png not found.'',
       LogInfo ''Display image generated successfully.''],
      Inr sample_image)"
proof -
  have t: "load_template sample_world =
      ([LogWarning ''template.png not found. Creating a blank white background.''],
       Inr \<lparr>canvas = blank_bitmap, overlays = []\<rparr>)"
    by (simp add: load_template_def os_path_exists_def Image_new_def blank_bitmap_def
        COLOR_WHITE_def PIC_DIR_def os_path_join_def sample_world_def)
  have i: "draw_icon sample_world sample_reading im =
      ([LogWarning ''Weather icon 10d.png not found.''], Inr im)" for im
    by (simp add: draw_icon_def os_path_exists_def sample_reading_def PIC_DIR_def ICON_DIR_def
        os_path_join_def sample_world_def)
  have c: "strftime_HM (clock sample_world) = ''09:05''"
    by (simp add: strftime_HM_def pad2_def sample_world_def digit_char_def)
  show ?thesis
    by (simp add: generate_display_image_def generate_display_body_def t i sample_texts c
        sample_image_def)
qed

lemma sample_render_any_provider:
  "generate_display_image (sample_world\<lparr>http_get := h\<rparr>) sample_reading =
     ([LogWarning ''template.png not found. Creating a blank white background.'',
       LogWarning ''Weather icon 10d.png not found.'',
       LogInfo ''Display image generated successfully.''],
      Inr sample_image)"
proof -
  have t: "load_template (sample_world\<lparr>http_get := h\<rparr>) =
      ([LogWarning ''template.png not found. Creating a blank white background.''],
       Inr \<lparr>canvas = blank_bitmap, overlays = []\<rparr>)"
    by (simp add: load_template_def os_path_exists_def Image_new_def blank_bitmap_def
        COLOR_WHITE_def PIC_DIR_def os_path_join_def sample_world_def)
  have i: "draw_icon (sample_world\<lparr>http_get := h\<rparr>) sample_reading im =
      ([LogWarning ''Weather icon 10d.png not found.''], Inr im)" for im
    by (simp add: draw_icon_def os_path_exists_def sample_reading_def PIC_DIR_def ICON_DIR_def
        os_path_join_def sample_world_def)
  have c: "strftime_HM (clock sample_world) = ''09:05''"
    by (simp add: strftime_HM_def pad2_def sample_world_def digit_char_def)
  show ?thesis
    by (simp add: generate_display_image_def generate_display_body_def t i sample_texts c
        sample_image_def)
qed

lemma template_render:
  "generate_display_image (template_world sz) sample_reading =
     ([LogWarning ''Weather icon 10d.png not found.'',
       LogInfo ''Display image generated successfully.''],
      Inr \<lparr>canvas = \<lparr>im_mode = ''1'', im_size = sz,
                       im_pixels = FromFile ''/home/pi/weather/pic/template.png''\<rparr>,
           overlays = overlays sample_image\<rparr>)"
proof -
  have t: "load_template (template_world sz) =
      ([], Inr \<lparr>canvas = \<lparr>im_mode = ''1'', im_size = sz,
                         im_pixels = FromFile ''/home/pi/weather/pic/template.png''\<rparr>,
               overlays = []\<rparr>)"
    by (simp add: load_template_def os_path_exists_def Image_open_def convert_def
        PIC_DIR_def os_path_join_def template_world_def sample_world_def)
  have i: "draw_icon (template_world sz) sample_reading im =
      ([LogWarning ''Weather icon 10d.png not found.''], Inr im)" for im
    by (simp add: draw_icon_def os_path_exists_def sample_reading_def PIC_DIR_def ICON_DIR_def
        os_path_join_def template_world_def sample_world_def)
  have c: "strftime_HM (clock (template_world sz)) = ''09:05''"
    by (simp add: strftime_HM_def pad2_def template_world_def sample_world_def digit_char_def)
  show ?thesis
    by (simp add: generate_display_image_def generate_display_body_def t i sample_texts c
        sample_image_def)
qed

subsection \<open>The Projector\<close>

text \<open>
  Claim C1. For every payload that contains all required fields (\<open>current\<close> a dictionary
  with \<open>temp\<close>, \<open>feels_like\<close>, \<open>humidity\<close>, \<open>wind_speed\<close> and a list \<open>weather\<close> whose first
  entry has a text \<open>description\<close> and an \<open>icon\<close>; \<open>daily\<close> a list whose first entry has
  \<open>temp.max\<close>, \<open>temp.min\<close> and a \<open>pop\<close> that Python can multiply by 100), the Projector logs
  its success and returns the record of exactly nine fields in which \<open>precip_percent\<close> is
  \<open>pop * 100\<close>, \<open>report\<close> is the description in title case, and the seven other fields
  are the values of the payload, unchanged. The description is a text of code points below
  256 without U+00B5 and U+00FF, whose title case is again such a text. Title case and the
  product are those of Python, as on every letter of ASCII at the head of a word and inside
  one, on the a with diaeresis U+00E4 and U+00C4, on the sharp s, on a letter after a digit,
  and on 0.17 and 1 times 100.
\<close>

theorem process_weather_data_projects:
  assumes "map_of root ''current'' = Some (PDict cur)"
    and "map_of root ''daily'' = Some (PList (PDict day # days))"
    and "map_of cur ''temp'' = Some temp"
    and "map_of cur ''feels_like'' = Some feels"
    and "map_of cur ''humidity'' = Some hum"
    and "map_of cur ''wind_speed'' = Some wind_speed"
    and "map_of cur ''weather'' = Some (PList (PDict cond # conds))"
    and "map_of cond ''description'' = Some (PStr description)"
    and "map_of cond ''icon'' = Some icon"
    and "map_of day ''temp'' = Some (PDict dt)"
    and "map_of dt ''max'' = Some tmax"
    and "map_of dt ''min'' = Some tmin"
    and "map_of day ''pop'' = Some pop"
    and "py_mul pop 100 = Inr precip"
    and "set description \<inter> set beyond_latin1 = {}"
  shows "process_weather_data (PDict root) =
     ([LogInfo ''Weather data processed successfully.''],
      Inr (PDict
       [(''temp_current'', temp),
        (''feels_like'', feels),
        (''humidity'', hum),
        (''wind'', wind_speed),
        (''report'', PStr (title description)),
        (''icon_code'', icon),
        (''temp_max'', tmax),
        (''temp_min'', tmin),
        (''precip_percent'', precip)]))
   \<and> title ''light rain'' = ''Light Rain''
   \<and> title ''a b c d e f g h i j k l m n o p q r s t u v w x y z'' =
        ''A B C D E F G H I J K L M N O P Q R S T U V W X Y Z''
   \<and> title ''ABCDEFGHIJKLMNOPQRSTUVWXYZ'' = ''Abcdefghijklmnopqrstuvwxyz''
   \<and> title (''h'' @ [CHR 0xE4] @ ''rm'' @ [CHR 0xE4]) = ''H'' @ [CHR 0xE4] @ ''rm'' @ [CHR 0xE4]
   \<and> title ([CHR 0xC4] @ ''ITI 3pm'') = [CHR 0xC4] @ ''iti 3Pm''
   \<and> title (''stra'' @ [CHR 0xDF] @ ''e '' @ [CHR 0xDF] @ ''a'') =
        ''Stra'' @ [CHR 0xDF] @ ''e Ssa''
   \<and> py_mul (PFloat float_0_17) 100 = Inr (PFloat float_17_0)
   \<and> py_mul (PInt 1) 100 = Inr (PInt 100)"
proof (intro conjI)
  show "process_weather_data (PDict root) =
     ([LogInfo ''Weather data processed successfully.''],
      Inr (PDict
       [(''temp_current'', temp),
        (''feels_like'', feels),
        (''humidity'', hum),
        (''wind'', wind_speed),
        (''report'', PStr (title description)),
        (''icon_code'', icon),
        (''temp_max'', tmax),
        (''temp_min'', tmin),
        (''precip_percent'', precip)]))"
    using assms by (simp add: process_weather_data_def process_weather_body_def py_index_def)
  show "py_mul (PFloat float_0_17) 100 = Inr (PFloat float_17_0)" by (rule pop_0_17)
  show "py_mul (PInt 1) 100 = Inr (PInt 100)" by simp
qed (rule title_light_rain title_first_letters title_later_letters title_latin1)+

theorem process_weather_data_projects_witness:
  "process_weather_data (PDict sample_root) =
     ([LogInfo ''Weather data processed successfully.''], Inr sample_reading)"
proof -
  have "process_weather_data (PDict sample_root) =
     ([LogInfo ''Weather data processed successfully.''],
      Inr (PDict
       [(''temp_current'', PFloat float_21_6),
        (''feels_like'', PFloat float_19_3),
        (''humidity'', PInt 64),
        (''wind'', PFloat float_3_42),
        (''report'', PStr (title ''light rain'')),
        (''icon_code'', PStr ''10d''),
        (''temp_max'', PFloat float_24_1),
        (''temp_min'', PFloat float_18_2),
        (''precip_percent'', PFloat float_17_0)]))"
    by (rule process_weather_data_projects [where cur = sample_current and day = sample_daily0
          and days = "[]" and cond = sample_weather0 and conds = "[]" and dt = sample_daily_temp
          and pop = "PFloat float_0_17", THEN conjunct1])
       (simp_all add: sample_root_def sample_current_def sample_daily0_def
          sample_weather0_def sample_daily_temp_def pop_0_17 beyond_latin1_def
          del: py_mul.simps)
  then show ?thesis
    by (simp add: sample_reading_def title_light_rain)
qed

lemma body_Inr_has_all_fields:
  assumes "process_weather_body p = Inr r"
  shows "has_all_fields p"
  using assms unfolding process_weather_body_def
  by (clarsimp simp: bnd_eq_Inr has_all_fields_def required_fields_def)

lemma body_Inr_keys:
  assumes "process_weather_body p = Inr r"
  shows "\<exists>wd. r = PDict wd \<and> map fst wd = [''temp_current'', ''feels_like'', ''humidity'', ''wind'', ''report'', ''icon_code'', ''temp_max'', ''temp_min'', ''precip_percent'']"
  using assms unfolding process_weather_body_def
  by (clarsimp simp: bnd_eq_Inr)

lemma getitem_dict_error: "is_dict v \<Longrightarrow> getitem v (KStr k) = Inl e \<Longrightarrow> is_KeyError e"
  by (cases v) (auto split: option.splits)

lemma getitem_list_ok: "is_nonempty_list v \<Longrightarrow> getitem v (KInt 0) = Inl e \<Longrightarrow> False"
  by (cases v rule: is_nonempty_list.cases) (auto simp: py_index_def)

lemma py_title_ok: "is_str v \<Longrightarrow> py_title v = Inl e \<Longrightarrow> False"
  by (cases v) auto

lemma py_mul_ok: "is_number v \<Longrightarrow> py_mul v 100 = Inl e \<Longrightarrow> False"
  by (cases v) (auto simp: float_simps bnd_def)

lemma body_Inl_KeyError:
  assumes "expected_shape p" and "process_weather_body p = Inl e"
  shows "is_KeyError e"
  using assms unfolding process_weather_body_def expected_shape_def shape_at_def
  by (auto simp: bnd_eq_Inl bnd_eq_Inr dest: getitem_dict_error getitem_list_ok py_title_ok py_mul_ok)

text \<open>
  Claim C5, as the spec states it: whenever a required field is absent the Projector logs
  the error and raises it again. It does not when the list \<open>daily\<close> is empty: the fields
  under \<open>daily[0]\<close> are absent, the exception is an \<^verbatim>\<open>IndexError\<close>, the handler is
  \<^verbatim>\<open>except KeyError\<close>, and the Projector logs nothing.
\<close>

theorem missing_field_counterexample:
  "\<not> has_all_fields payload_empty_daily
   \<and> process_weather_data payload_empty_daily = ([], Inl IndexError)"
  by (simp add: payload_empty_daily_def has_all_fields_def required_fields_def
      process_weather_data_def process_weather_body_def py_index_def sample_current_def)

text \<open>
  Claim C5, amended. For every payload of the expected shape in which a required field is
  absent, the Projector logs a \<^verbatim>\<open>KeyError\<close> and raises it again. For every payload
  whatsoever it either returns the complete record of exactly the nine fields, and then
  every required field was present, or it raises and returns nothing, with a log record
  exactly when the exception is a \<^verbatim>\<open>KeyError\<close>: there is no partial record and no default.
\<close>

theorem process_weather_data_all_or_nothing:
  "(expected_shape p \<and> \<not> has_all_fields p \<longrightarrow>
      (\<exists>k. process_weather_data p =
         ([LogError ''Error processing weather data: '' (KeyError k)], Inl (KeyError k))))
   \<and> ((\<exists>wd. process_weather_data p =
             ([LogInfo ''Weather data processed successfully.''], Inr (PDict wd))
           \<and> map fst wd = nine_fields \<and> has_all_fields p)
        \<or> (\<exists>e. process_weather_data p =
             (if is_KeyError e then [LogError ''Error processing weather data: '' e] else [],
              Inl e)))"
proof (cases "process_weather_body p")
  case (Inl e)
  have failed: "process_weather_data p =
      (if is_KeyError e then [LogError ''Error processing weather data: '' e] else [], Inl e)"
    by (simp add: process_weather_data_def Inl)
  have "\<exists>k. process_weather_data p =
      ([LogError ''Error processing weather data: '' (KeyError k)], Inl (KeyError k))"
    if "expected_shape p"
  proof -
    from that Inl have "is_KeyError e" by (rule body_Inl_KeyError)
    then obtain k where "e = KeyError k" by (cases e) simp_all
    with failed show ?thesis by auto
  qed
  with failed show ?thesis by blast
next
  case (Inr r)
  then have all: "has_all_fields p" by (rule body_Inr_has_all_fields)
  from Inr obtain wd where "r = PDict wd" and "map fst wd = nine_fields"
    using body_Inr_keys unfolding nine_fields_def by blast
  with Inr all show ?thesis by (simp add: process_weather_data_def)
qed

theorem process_weather_data_all_or_nothing_witness:
  "expected_shape payload_without_pop \<and> \<not> has_all_fields payload_without_pop
   \<and> process_weather_data payload_without_pop =
       ([LogError ''Error processing weather data: '' (KeyError (KStr ''pop''))],
        Inl (KeyError (KStr ''pop'')))"
proof -
  have shape: "expected_shape payload_without_pop"
    by (simp add: payload_without_pop_def expected_shape_def shape_at_def py_index_def
        sample_current_def sample_weather0_def sample_daily_temp_def)
  have missing: "\<not> has_all_fields payload_without_pop"
    by (simp add: payload_without_pop_def has_all_fields_def required_fields_def py_index_def
        sample_current_def sample_weather0_def sample_daily_temp_def)
  from process_weather_data_all_or_nothing [of payload_without_pop] shape missing
  obtain k where k: "process_weather_data payload_without_pop =
      ([LogError ''Error processing weather data: '' (KeyError k)], Inl (KeyError k))"
    by blast
  have "snd (process_weather_data payload_without_pop) = Inl (KeyError (KStr ''pop''))"
    by (simp add: payload_without_pop_def process_weather_data_def process_weather_body_def
        py_index_def sample_current_def sample_weather0_def sample_daily_temp_def)
  with k have "k = KStr ''pop''" by simp
  with k shape missing show ?thesis by simp
qed

text \<open>
  Claim C10. When the payload has \<open>current\<close> and its \<open>daily\<close> is the empty list, the
  Projector raises \<^verbatim>\<open>IndexError\<close> and logs nothing itself; when the provider answers with
  such a payload, \<^verbatim>\<open>main\<close> logs the error and the process ends with status 1, nothing
  having been rendered or sent to the panel.
\<close>

theorem empty_daily_list_raises_IndexError:
  assumes "map_of root ''current'' = Some cur"
    and "map_of root ''daily'' = Some (PList [])"
  shows "process_weather_data (PDict root) = ([], Inl IndexError)
    \<and> (http_get w (request_url k) 10 = Inr (Response status (Inr (PDict root)))
         \<and> \<not> (400 \<le> status \<and> status < 600) \<longrightarrow>
       main w k =
         \<lparr>exit_status = 1,
          logged =
            [LogInfo ''--- Weather Script Started ---'',
             LogInfo ''Weather data fetched successfully.'',
             LogError ''An unexpected error occurred in main loop: '' IndexError],
          performed = [HttpGet (request_url k) 10],
          uncaught = None\<rparr>)"
proof -
  have projector: "process_weather_data (PDict root) = ([], Inl IndexError)"
    using assms by (simp add: process_weather_data_def process_weather_body_def py_index_def)
  then show ?thesis
    by (auto simp: main_def main_body_def fetch_weather_data_def)
qed

theorem empty_daily_list_raises_IndexError_witness:
  "process_weather_data payload_empty_daily = ([], Inl IndexError)
   \<and> main (sample_world\<lparr>http_get := \<lambda>url t. Inr (Response 200 (Inr payload_empty_daily))\<rparr>)
        ''0123abcd'' =
         \<lparr>exit_status = 1,
          logged =
            [LogInfo ''--- Weather Script Started ---'',
             LogInfo ''Weather data fetched successfully.'',
             LogError ''An unexpected error occurred in main loop: '' IndexError],
          performed = [HttpGet (request_url ''0123abcd'') 10],
          uncaught = None\<rparr>"
  using empty_daily_list_raises_IndexError [of "[(''current'', PDict sample_current), (''daily'', PList [])]"
      "PDict sample_current"
      "sample_world\<lparr>http_get := \<lambda>url t. Inr (Response 200 (Inr payload_empty_daily))\<rparr>"
      "''0123abcd''" 200]
  by (simp add: payload_empty_daily_def)

subsection \<open>The Presenter\<close>

text \<open>
  Claim C6. When \<^verbatim>\<open>display_image\<close> returns without an exception, the calls it has made to
  the panel are exactly: create the driver, init, clear, convert the image, convert the
  blank white image of the panel's size, display both buffers, sleep; each once, in this
  order, with sleep last.
\<close>

theorem display_image_linear_order:
  assumes "snd (snd (display_image w black_image)) = Inr u"
  shows "fst (snd (display_image w black_image)) =
           [EpdNew, EpdInit, EpdClear,
            EpdGetbuffer black_image, EpdGetbuffer (red_image w),
            EpdDisplay (Buffer black_image) (Buffer (red_image w)),
            EpdSleep]
    \<and> fst (display_image w black_image) =
           [LogInfo ''Initializing E-Paper display...'',
            LogInfo ''Sending image to screen (this takes ~15-20 seconds)...'',
            LogInfo ''Putting display to sleep.'']"
  using assms
  by (simp add: display_image_def display_actions_def red_image_def Image_new_def
      COLOR_WHITE_def Let_def split: option.splits prod.splits)

theorem display_image_linear_order_witness:
  "snd (snd (display_image sample_world blank_canvas)) = Inr ()
   \<and> fst (snd (display_image sample_world blank_canvas)) =
       [EpdNew, EpdInit, EpdClear,
        EpdGetbuffer blank_canvas, EpdGetbuffer (red_image sample_world),
        EpdDisplay (Buffer blank_canvas) (Buffer (red_image sample_world)),
        EpdSleep]
   \<and> fst (display_image sample_world blank_canvas) =
       [LogInfo ''Initializing E-Paper display...'',
        LogInfo ''Sending image to screen (this takes ~15-20 seconds)...'',
        LogInfo ''Putting display to sleep.'']"
proof -
  have run: "snd (snd (display_image sample_world blank_canvas)) = Inr ()"
    by (simp add: display_image_def display_actions_def sample_world_def sample_epd_def Let_def)
  from display_image_linear_order [OF run] run show ?thesis by simp
qed

subsection \<open>The module and the driver\<close>

text \<open>
  Claim C9. When \<^verbatim>\<open>OPENWEATHER_API_KEY\<close> is unset or empty the module raises
  \<^verbatim>\<open>ValueError\<close>, nothing catches it, the status is 1, and nothing was logged, fetched,
  rendered or sent to the panel.
\<close>

theorem missing_api_key_stops_the_module:
  assumes "environ w ''OPENWEATHER_API_KEY'' = None \<or> environ w ''OPENWEATHER_API_KEY'' = Some []"
  shows "script w = \<lparr>exit_status = 1, logged = [], performed = [], uncaught = Some ValueError\<rparr>"
  using assms by (auto simp: script_def traceback_def)

theorem missing_api_key_stops_the_module_witness:
  "script (sample_world\<lparr>environ := Map.empty\<rparr>) =
     \<lparr>exit_status = 1, logged = [], performed = [], uncaught = Some ValueError\<rparr>
   \<and> script (sample_world\<lparr>environ := map_of [(''OPENWEATHER_API_KEY'', [])]\<rparr>) =
     \<lparr>exit_status = 1, logged = [], performed = [], uncaught = Some ValueError\<rparr>"
  using missing_api_key_stops_the_module [of "sample_world\<lparr>environ := Map.empty\<rparr>"]
    missing_api_key_stops_the_module
      [of "sample_world\<lparr>environ := map_of [(''OPENWEATHER_API_KEY'', [])]\<rparr>"]
  by simp

text \<open>
  Claim C7, as the spec states it: every status that is not a success makes the run end
  with status 1 and without a call to the panel. \<^verbatim>\<open>raise_for_status()\<close> raises for the
  codes 400 to 599 only: when the provider answers 300 with the payload as its body, the
  fetch returns the payload, the panel is driven and the status is 0.
\<close>

theorem status_300_counterexample:
  "http_get multiple_choices_world (request_url ''0123abcd'') 10 =
     Inr (Response 300 (Inr (PDict sample_root)))
   \<and> snd (snd (fetch_weather_data multiple_choices_world ''0123abcd'')) =
       Inr (PDict sample_root)
   \<and> exit_status (main multiple_choices_world ''0123abcd'') = 0
   \<and> performed (main multiple_choices_world ''0123abcd'') =
       [HttpGet (request_url ''0123abcd'') 10, EpdNew, EpdInit, EpdClear,
        EpdGetbuffer sample_image, EpdGetbuffer (red_image multiple_choices_world),
        EpdDisplay (Buffer sample_image) (Buffer (red_image multiple_choices_world)),
        EpdSleep]
   \<and> list_ex is_hardware (performed (main multiple_choices_world ''0123abcd''))"
proof -
  let ?k = "''0123abcd''"
  have h: "http_get multiple_choices_world (request_url ?k) 10 =
      Inr (Response 300 (Inr (PDict sample_root)))"
    by (simp add: multiple_choices_world_def)
  have f: "fetch_weather_data multiple_choices_world ?k =
      ([LogInfo ''Weather data fetched successfully.''], [HttpGet (request_url ?k) 10],
       Inr (PDict sample_root))"
    by (simp add: fetch_weather_data_def h)
  have g: "generate_display_image multiple_choices_world sample_reading =
      ([LogWarning ''template.png not found. Creating a blank white background.'',
        LogWarning ''Weather icon 10d.png not found.'',
        LogInfo ''Display image generated successfully.''],
       Inr sample_image)"
    by (simp add: multiple_choices_world_def sample_render_any_provider)
  have d: "display_image multiple_choices_world sample_image =
      ([LogInfo ''Initializing E-Paper display...'',
        LogInfo ''Sending image to screen (this takes ~15-20 seconds)...'',
        LogInfo ''Putting display to sleep.''],
       [EpdNew, EpdInit, EpdClear,
        EpdGetbuffer sample_image, EpdGetbuffer (red_image multiple_choices_world),
        EpdDisplay (Buffer sample_image) (Buffer (red_image multiple_choices_world)),
        EpdSleep],
       Inr ())"
    by (simp add: display_image_def display_actions_def multiple_choices_world_def
        sample_world_def sample_epd_def Let_def red_image_def Image_new_def COLOR_WHITE_def)
  have m: "main multiple_choices_world ?k =
      \<lparr>exit_status = 0,
       logged = logged (main multiple_choices_world ?k),
       performed =
         [HttpGet (request_url ?k) 10, EpdNew, EpdInit, EpdClear,
          EpdGetbuffer sample_image, EpdGetbuffer (red_image multiple_choices_world),
          EpdDisplay (Buffer sample_image) (Buffer (red_image multiple_choices_world)),
          EpdSleep],
       uncaught = None\<rparr>"
    by (simp add: main_def main_body_def f sample_projection g d)
  have e: "exit_status (main multiple_choices_world ?k) = 0" by (subst m) simp
  have p: "performed (main multiple_choices_world ?k) =
         [HttpGet (request_url ?k) 10, EpdNew, EpdInit, EpdClear,
          EpdGetbuffer sample_image, EpdGetbuffer (red_image multiple_choices_world),
          EpdDisplay (Buffer sample_image) (Buffer (red_image multiple_choices_world)),
          EpdSleep]"
    by (subst m) simp
  show ?thesis by (simp add: h f e p)
qed

text \<open>
  Claim C7, amended. A transport error or timeout of the request, or a status code from
  400 to 599, makes the fetch fail; whenever the fetch fails, \<^verbatim>\<open>main\<close> logs the error
  last, the status is 1, and the request is all that was done: no call to the panel. When
  every stage succeeds the status is 0. A status below 400 or from 600 is no failure: the
  fetch then ends as \<^verbatim>\<open>response.json()\<close> does, with the decoded body or its exception.
\<close>

theorem fetch_failure_exits_1:
  "(http_get w (request_url k) 10 = Inl e \<longrightarrow>
      snd (snd (fetch_weather_data w k)) = Inl e)
   \<and> (http_get w (request_url k) 10 = Inr (Response status body)
        \<and> 400 \<le> status \<and> status < 600 \<longrightarrow>
      snd (snd (fetch_weather_data w k)) = Inl (HTTPError status))
   \<and> (snd (snd (fetch_weather_data w k)) = Inl e \<longrightarrow>
      exit_status (main w k) = 1
      \<and> last (logged (main w k)) = LogError ''An unexpected error occurred in main loop: '' e
      \<and> (is_RequestException e \<longrightarrow>
           LogError ''Failed to fetch weather data: '' e \<in> set (logged (main w k)))
      \<and> performed (main w k) = [HttpGet (request_url k) 10]
      \<and> \<not> list_ex is_hardware (performed (main w k)))
   \<and> (fetch_weather_data w k = (l1, t1, Inr raw_data)
        \<and> process_weather_data raw_data = (l2, Inr weather_data)
        \<and> generate_display_image w weather_data = (l3, Inr black_image)
        \<and> display_image w black_image = (l4, t4, Inr u) \<longrightarrow>
      exit_status (main w k) = 0)
   \<and> (http_get w (request_url k) 10 = Inr (Response status body)
        \<and> (status < 400 \<or> 600 \<le> status) \<longrightarrow>
      snd (snd (fetch_weather_data w k)) = body)"
proof (intro conjI impI)
  assume "http_get w (request_url k) 10 = Inl e"
  then show "snd (snd (fetch_weather_data w k)) = Inl e"
    by (simp add: fetch_weather_data_def)
next
  assume "http_get w (request_url k) 10 = Inr (Response status body)
        \<and> 400 \<le> status \<and> status < 600"
  then show "snd (snd (fetch_weather_data w k)) = Inl (HTTPError status)"
    by (simp add: fetch_weather_data_def)
next
  assume failed: "snd (snd (fetch_weather_data w k)) = Inl e"
  then obtain l where fetch:
    "fetch_weather_data w k = (fetch_failed l e, [HttpGet (request_url k) 10], Inl e)"
    by (auto simp: fetch_weather_data_def Let_def split: sum.splits)
  then have m: "main w k =
      \<lparr>exit_status = 1,
       logged = [LogInfo ''--- Weather Script Started ---''] @ fetch_failed l e
                @ [LogError ''An unexpected error occurred in main loop: '' e],
       performed = [HttpGet (request_url k) 10], uncaught = None\<rparr>"
    by (simp add: main_def main_body_def)
  show "exit_status (main w k) = 1" by (simp add: m)
  show "last (logged (main w k)) = LogError ''An unexpected error occurred in main loop: '' e"
    by (simp add: m)
  show "LogError ''Failed to fetch weather data: '' e \<in> set (logged (main w k))"
    if "is_RequestException e"
    using that by (simp add: m fetch_failed_def)
  show "performed (main w k) = [HttpGet (request_url k) 10]" by (simp add: m)
  show "\<not> list_ex is_hardware (performed (main w k))" by (simp add: m)
next
  assume "fetch_weather_data w k = (l1, t1, Inr raw_data)
        \<and> process_weather_data raw_data = (l2, Inr weather_data)
        \<and> generate_display_image w weather_data = (l3, Inr black_image)
        \<and> display_image w black_image = (l4, t4, Inr u)"
  then show "exit_status (main w k) = 0"
    by (simp add: main_def main_body_def)
next
  assume "http_get w (request_url k) 10 = Inr (Response status body)
        \<and> (status < 400 \<or> 600 \<le> status)"
  then show "snd (snd (fetch_weather_data w k)) = body"
    by (cases body) (auto simp: fetch_weather_data_def)
qed

theorem fetch_failure_exits_1_witness:
  "exit_status (main timeout_world ''0123abcd'') = 1
   \<and> performed (main timeout_world ''0123abcd'') = [HttpGet (request_url ''0123abcd'') 10]
   \<and> LogError ''Failed to fetch weather data: '' RequestsTimeout
        \<in> set (logged (main timeout_world ''0123abcd''))
   \<and> last (logged (main timeout_world ''0123abcd'')) =
        LogError ''An unexpected error occurred in main loop: '' RequestsTimeout
   \<and> exit_status (main unavailable_world ''0123abcd'') = 1
   \<and> last (logged (main unavailable_world ''0123abcd'')) =
        LogError ''An unexpected error occurred in main loop: '' (HTTPError 503)
   \<and> exit_status (main sample_world ''0123abcd'') = 0
   \<and> snd (snd (fetch_weather_data multiple_choices_world ''0123abcd'')) =
        Inr (PDict sample_root)"
proof -
  let ?k = "''0123abcd''"
  have a: "http_get timeout_world (request_url ?k) 10 = Inl RequestsTimeout"
    by (simp add: timeout_world_def)
  have b: "http_get unavailable_world (request_url ?k) 10 = Inr (Response 503 (Inr PNone))
      \<and> (400::nat) \<le> 503 \<and> (503::nat) < 600"
    by (simp add: unavailable_world_def)
  have c: "http_get multiple_choices_world (request_url ?k) 10 =
        Inr (Response 300 (Inr (PDict sample_root)))
      \<and> ((300::nat) < 400 \<or> (600::nat) \<le> 300)"
    by (simp add: multiple_choices_world_def)
  have f: "fetch_weather_data sample_world ?k =
      ([LogInfo ''Weather data fetched successfully.''], [HttpGet (request_url ?k) 10],
       Inr (PDict sample_root))"
    by (simp add: fetch_weather_data_def sample_world_def)
  have d: "display_image sample_world sample_image =
      (fst (display_image sample_world sample_image),
       fst (snd (display_image sample_world sample_image)), Inr ())"
    by (simp add: display_image_def display_actions_def sample_world_def sample_epd_def Let_def)
  note c1 = fetch_failure_exits_1 [THEN conjunct1, THEN mp, OF a]
  note c2 = fetch_failure_exits_1 [THEN conjunct2, THEN conjunct1, THEN mp, OF b]
  note c3 = fetch_failure_exits_1 [THEN conjunct2, THEN conjunct2, THEN conjunct1, THEN mp]
  note c4 = fetch_failure_exits_1 [THEN conjunct2, THEN conjunct2, THEN conjunct2,
      THEN conjunct1, THEN mp,
      OF conjI [OF f conjI [OF sample_projection conjI [OF sample_render d]]]]
  note c5 = fetch_failure_exits_1 [THEN conjunct2, THEN conjunct2, THEN conjunct2,
      THEN conjunct2, THEN mp, OF c]
  from c3 [OF c1] c3 [OF c2] c4 c5 show ?thesis by simp
qed

subsection \<open>The Renderer\<close>

lemma py_format_f_displayable: "is_displayable_number v \<Longrightarrow> \<not> isl (py_format_f p v)"
  by (cases v) (auto simp: fits_float_def int_to_float_def split: option.splits)

lemma bnd_not_isl: "\<not> isl r \<Longrightarrow> (\<And>x. r = Inr x \<Longrightarrow> \<not> isl (f x)) \<Longrightarrow> \<not> isl (bnd r f)"
  by (cases r) simp_all

lemma number_text:
  assumes "map_of d k = Some v" and "is_displayable_number v"
  shows "\<not> isl (bnd (getitem (PDict d) (KStr k)) (\<lambda>v. bnd (py_format_f p v) (\<lambda>s. Inr (f s))))"
  using assms py_format_f_displayable [of v p] by (cases "py_format_f p v") simp_all

lemma plain_text:
  assumes "map_of d k = Some v"
  shows "\<not> isl (bnd (getitem (PDict d) (KStr k)) (\<lambda>v. Inr (f v)))"
  using assms by simp

lemma text_overlays_right:
  assumes "well_formed_reading d"
  shows "\<forall>x \<in> set (text_overlays w (PDict d)). \<not> isl x"
proof -
  from assms obtain pp tc fl tmx tmn wi rp hu where
    "map_of d ''precip_percent'' = Some pp" "is_displayable_number pp"
    "map_of d ''temp_current'' = Some tc" "is_displayable_number tc"
    "map_of d ''feels_like'' = Some fl" "is_displayable_number fl"
    "map_of d ''temp_max'' = Some tmx" "is_displayable_number tmx"
    "map_of d ''temp_min'' = Some tmn" "is_displayable_number tmn"
    "map_of d ''wind'' = Some wi" "is_displayable_number wi"
    "map_of d ''report'' = Some rp" "map_of d ''humidity'' = Some hu"
    by (auto simp: well_formed_reading_def split: option.splits)
  then show ?thesis
    unfolding text_overlays_def
    by (simp add: number_text plain_text del: getitem.simps)
qed

lemma bnd_text:
  "(\<And>x. \<not> isl (f x) \<longrightarrow> is_text (projr (f x))) \<Longrightarrow>
     \<not> isl (bnd r f) \<longrightarrow> is_text (projr (bnd r f))"
  by (cases r) simp_all

lemma text_overlays_all_text:
  "\<forall>x \<in> set (text_overlays w wd). \<not> isl x \<longrightarrow> is_text (projr x)"
  unfolding text_overlays_def
  by (simp del: getitem.simps) (intro conjI bnd_text; simp)

lemma length_text_overlays: "length (text_overlays w wd) = 10"
  by (simp add: text_overlays_def)

lemma draw_each_right:
  "\<forall>x \<in> set xs. \<not> isl x \<Longrightarrow>
     draw_each xs im = Inr (im\<lparr>overlays := overlays im @ map projr xs\<rparr>)"
  by (induction xs arbitrary: im) (auto split: sum.splits)

lemma draw_each_canvas: "draw_each xs im = Inr im' \<Longrightarrow> canvas im' = canvas im"
  by (induction xs arbitrary: im) (auto split: sum.splits)

lemma draw_icon_canvas: "draw_icon w wd im = (lg, Inr im') \<Longrightarrow> canvas im' = canvas im"
  by (auto simp: draw_icon_def paste_def Let_def bnd_def split: sum.splits if_splits)

lemma map_Inr_projr: "\<forall>x \<in> set xs. \<not> isl x \<Longrightarrow> map Inr (map projr xs) = xs"
  by (induction xs) auto

lemma is_image_fileD: "is_image_file f \<Longrightarrow> \<exists>mode sz. f = Some (ImageFile mode sz)"
  by (erule is_image_file.elims) simp_all

lemma load_template_absent:
  "files w (template_path w) = None \<Longrightarrow>
     load_template w =
       ([LogWarning ''template.png not found. Creating a blank white background.''],
        Inr \<lparr>canvas = blank_bitmap, overlays = []\<rparr>)"
  by (simp add: load_template_def template_path_def os_path_exists_def Image_new_def
      blank_bitmap_def COLOR_WHITE_def)

lemma load_template_image:
  "files w (template_path w) = Some (ImageFile mode sz) \<Longrightarrow>
     load_template w =
       ([], Inr \<lparr>canvas = \<lparr>im_mode = ''1'', im_size = sz,
                              im_pixels = FromFile (template_path w)\<rparr>,
                  overlays = []\<rparr>)"
  by (simp add: load_template_def template_path_def os_path_exists_def Image_open_def
      convert_def)

lemma load_template_canvas:
  assumes "load_template w = (lg, Inr t)"
  shows "im_mode (canvas t) = ''1''"
    and "im_size (canvas t) =
          (case files w (template_path w) of Some (ImageFile mode sz) \<Rightarrow> sz | _ \<Rightarrow> (800, 480))"
  using assms
  by (auto simp: load_template_def template_path_def os_path_exists_def Image_open_def
      convert_def Image_new_def Let_def split: if_splits option.splits fs_file.splits)

lemma draw_icon_absent:
  "map_of d ''icon_code'' = Some ic \<Longrightarrow> files w (icon_path w ic) = None \<Longrightarrow>
     draw_icon w (PDict d) im =
       ([LogWarning (''Weather icon '' @ py_str (repr_of w) ic @ ''.png not found.'')], Inr im)"
  by (simp add: draw_icon_def icon_path_def os_path_exists_def)

lemma draw_icon_image:
  "map_of d ''icon_code'' = Some ic \<Longrightarrow> files w (icon_path w ic) = Some (ImageFile mode sz) \<Longrightarrow>
     draw_icon w (PDict d) im =
       ([], Inr (im\<lparr>overlays := overlays im @
           [Pasted \<lparr>im_mode = ''1'', im_size = sz, im_pixels = FromFile (icon_path w ic)\<rparr>
              (40, 15)]\<rparr>))"
  by (simp add: draw_icon_def icon_path_def os_path_exists_def Image_open_def convert_def
      paste_def)

lemma texts_drawn:
  "well_formed_reading d \<Longrightarrow>
     draw_each (text_overlays w (PDict d)) im =
       Inr (im\<lparr>overlays := overlays im @ map projr (text_overlays w (PDict d))\<rparr>)"
  by (rule draw_each_right) (rule text_overlays_right)

lemma generate_display_image_canvas:
  assumes "generate_display_image w wd = (lg, Inr img)"
  shows "\<exists>lg1 t. load_template w = (lg1, Inr t) \<and> canvas img = canvas t"
proof -
  from assms obtain lg1 t lg2 t2 where
    a: "load_template w = (lg1, Inr t)" and b: "draw_icon w wd t = (lg2, Inr t2)"
    and c: "draw_each (text_overlays w wd) t2 = Inr img"
    by (auto simp: generate_display_image_def generate_display_body_def
        split: prod.splits sum.splits)
  from draw_each_canvas [OF c] draw_icon_canvas [OF b] a show ?thesis by simp
qed

text \<open>
  Claim C3. When there is no template file, the Renderer composes every reading it can
  draw on the blank white canvas of 800 by 480 pixels in mode \<^verbatim>\<open>1\<close>, after a warning; and
  whatever it is given, an image it returns without a template file has this canvas.
\<close>

theorem no_template_gives_blank_canvas:
  assumes "files w (template_path w) = None"
    and "well_formed_reading d"
    and "map_of d ''icon_code'' = Some ic"
    and "files w (icon_path w ic) = None \<or> is_image_file (files w (icon_path w ic))"
  shows "(\<exists>lg img. generate_display_image w (PDict d) = (lg, Inr img)
            \<and> canvas img = \<lparr>im_mode = ''1'', im_size = (800, 480), im_pixels = Fill 255\<rparr>
            \<and> LogWarning ''template.png not found. Creating a blank white background.''
                \<in> set lg)
       \<and> (\<forall>wd lg img. generate_display_image w wd = (lg, Inr img) \<longrightarrow>
            canvas img = \<lparr>im_mode = ''1'', im_size = (800, 480), im_pixels = Fill 255\<rparr>)"
proof (intro conjI allI impI)
  from assms(4) show "\<exists>lg img. generate_display_image w (PDict d) = (lg, Inr img)
            \<and> canvas img = \<lparr>im_mode = ''1'', im_size = (800, 480), im_pixels = Fill 255\<rparr>
            \<and> LogWarning ''template.png not found. Creating a blank white background.''
                \<in> set lg"
  proof
    note t = load_template_absent [OF assms(1)]
    note x = texts_drawn [OF assms(2)]
    assume "files w (icon_path w ic) = None"
    from draw_icon_absent [OF assms(3) this] show ?thesis
      by (simp add: generate_display_image_def generate_display_body_def t x blank_bitmap_def)
  next
    note t = load_template_absent [OF assms(1)]
    note x = texts_drawn [OF assms(2)]
    assume "is_image_file (files w (icon_path w ic))"
    then obtain mode sz where "files w (icon_path w ic) = Some (ImageFile mode sz)"
      using is_image_fileD by blast
    from draw_icon_image [OF assms(3) this] show ?thesis
      by (simp add: generate_display_image_def generate_display_body_def t x blank_bitmap_def)
  qed
next
  fix wd lg img
  assume "generate_display_image w wd = (lg, Inr img)"
  from generate_display_image_canvas [OF this] load_template_absent [OF assms(1)]
  show "canvas img = \<lparr>im_mode = ''1'', im_size = (800, 480), im_pixels = Fill 255\<rparr>"
    by (auto simp: blank_bitmap_def)
qed

theorem no_template_gives_blank_canvas_witness:
  "files sample_world (template_path sample_world) = None
   \<and> (\<exists>lg img. generate_display_image sample_world sample_reading = (lg, Inr img)
         \<and> canvas img = \<lparr>im_mode = ''1'', im_size = (800, 480), im_pixels = Fill 255\<rparr>
         \<and> LogWarning ''template.png not found. Creating a blank white background.''
             \<in> set lg)"
proof -
  have a: "files sample_world (template_path sample_world) = None"
    by (simp add: template_path_def PIC_DIR_def os_path_join_def sample_world_def)
  have b: "files sample_world (icon_path sample_world (PStr ''10d'')) = None
      \<or> is_image_file (files sample_world (icon_path sample_world (PStr ''10d'')))"
    by (simp add: icon_path_def PIC_DIR_def ICON_DIR_def os_path_join_def sample_world_def)
  obtain d where r: "sample_reading = PDict d" and wf: "well_formed_reading d"
    and ic: "map_of d ''icon_code'' = Some (PStr ''10d'')"
    by (auto simp: sample_reading_def well_formed_reading_def)
  from no_template_gives_blank_canvas [OF a wf ic b] a show ?thesis
    by (simp add: r)
qed

text \<open>
  Claim C4. When \<open>icon_code\<close> names no file of the icon directory, the Renderer does not
  fail on a reading it can draw: it logs the warning and no error, pastes nothing, and the
  image it returns holds exactly the ten texts of \<^verbatim>\<open>draw.text\<close>, in the order of the source.
\<close>

theorem missing_icon_is_skipped:
  assumes "well_formed_reading d"
    and "map_of d ''icon_code'' = Some ic"
    and "files w (icon_path w ic) = None"
    and "files w (template_path w) = None \<or> is_image_file (files w (template_path w))"
  shows "\<exists>lg img. generate_display_image w (PDict d) = (lg, Inr img)
           \<and> LogWarning (''Weather icon '' @ py_str (repr_of w) ic @ ''.png not found.'')
               \<in> set lg
           \<and> (\<forall>msg e. LogError msg e \<notin> set lg)
           \<and> map Inr (overlays img) = text_overlays w (PDict d)
           \<and> length (overlays img) = 10
           \<and> list_all is_text (overlays img)"
proof -
  note x = texts_drawn [OF assms(1)]
  note i = draw_icon_absent [OF assms(2,3)]
  note r = text_overlays_right [OF assms(1), of w]
  have m: "map (Inr \<circ> projr) (text_overlays w (PDict d)) = text_overlays w (PDict d)"
    using map_Inr_projr [OF r] by simp
  have a: "list_all is_text (map projr (text_overlays w (PDict d)))"
    using r text_overlays_all_text [of w "PDict d"] by (simp add: list_all_iff)
  from assms(4) show ?thesis
  proof
    assume "files w (template_path w) = None"
    from load_template_absent [OF this] show ?thesis
      by (simp add: generate_display_image_def generate_display_body_def x i m a
          length_text_overlays)
  next
    assume "is_image_file (files w (template_path w))"
    then obtain mode sz where "files w (template_path w) = Some (ImageFile mode sz)"
      using is_image_fileD by blast
    from load_template_image [OF this] show ?thesis
      by (simp add: generate_display_image_def generate_display_body_def x i m a
          length_text_overlays)
  qed
qed

theorem missing_icon_is_skipped_witness:
  "files sample_world (icon_path sample_world (PStr ''10d'')) = None
   \<and> (\<exists>lg img. generate_display_image sample_world sample_reading = (lg, Inr img)
         \<and> LogWarning ''Weather icon 10d.png not found.'' \<in> set lg
         \<and> map Inr (overlays img) = text_overlays sample_world sample_reading
         \<and> length (overlays img) = 10
         \<and> list_all is_text (overlays img))"
proof -
  have a: "files sample_world (template_path sample_world) = None
      \<or> is_image_file (files sample_world (template_path sample_world))"
    by (simp add: template_path_def PIC_DIR_def os_path_join_def sample_world_def)
  have b: "files sample_world (icon_path sample_world (PStr ''10d'')) = None"
    by (simp add: icon_path_def PIC_DIR_def ICON_DIR_def os_path_join_def sample_world_def)
  obtain d where r: "sample_reading = PDict d" and wf: "well_formed_reading d"
    and ic: "map_of d ''icon_code'' = Some (PStr ''10d'')"
    by (auto simp: sample_reading_def well_formed_reading_def)
  from missing_icon_is_skipped [OF wf ic b a] obtain lg img where
    "generate_display_image sample_world (PDict d) = (lg, Inr img)"
    "LogWarning (''Weather icon '' @ py_str (repr_of sample_world) (PStr ''10d'')
        @ ''.png not found.'') \<in> set lg"
    "map Inr (overlays img) = text_overlays sample_world (PDict d)"
    "length (overlays img) = 10" "list_all is_text (overlays img)"
    by blast
  with b show ?thesis by (simp add: r)
qed

text \<open>
  Claim C8, as the spec states it: the composed image always has 800 by 480 pixels. The
  Renderer opens whatever template file is there and never looks at its size; with a
  template of 640 by 384 pixels the image it returns has 640 by 384 pixels.
\<close>

theorem template_size_counterexample:
  "files (template_world (640, 384)) (template_path (template_world (640, 384))) =
     Some (ImageFile ''RGB'' (640, 384))
   \<and> generate_display_image (template_world (640, 384)) sample_reading =
       ([LogWarning ''Weather icon 10d.png not found.'',
         LogInfo ''Display image generated successfully.''],
        Inr \<lparr>canvas = \<lparr>im_mode = ''1'', im_size = (640, 384),
                         im_pixels = FromFile ''/home/pi/weather/pic/template.png''\<rparr>,
             overlays = overlays sample_image\<rparr>)"
  by (simp add: template_render)
     (simp add: template_path_def PIC_DIR_def os_path_join_def template_world_def
        sample_world_def)

text \<open>
  Claim C8, amended. An image the Renderer returns is in mode \<^verbatim>\<open>1\<close> and has the size of the
  template file when there is one, and 800 by 480 when there is none; so it has the panel's
  800 by 480 whenever the template file is absent or is itself of that size.
\<close>

theorem image_size_is_template_size:
  assumes "generate_display_image w wd = (lg, Inr img)"
  shows "im_mode (canvas img) = ''1''
     \<and> im_size (canvas img) =
         (case files w (template_path w) of
            Some (ImageFile mode sz) \<Rightarrow> sz
          | _ \<Rightarrow> (800, 480))
     \<and> (files w (template_path w) = None
          \<or> (\<exists>mode. files w (template_path w) = Some (ImageFile mode (800, 480)))
        \<longrightarrow> im_size (canvas img) = (800, 480))"
proof -
  from generate_display_image_canvas [OF assms] obtain lg1 t where
    t: "load_template w = (lg1, Inr t)" and c: "canvas img = canvas t" by blast
  from load_template_canvas [OF t] c show ?thesis by auto
qed

theorem image_size_is_template_size_witness:
  "files (template_world (800, 480)) (template_path (template_world (800, 480))) =
     Some (ImageFile ''RGB'' (800, 480))
   \<and> (\<exists>lg img. generate_display_image (template_world (800, 480)) sample_reading =
         (lg, Inr img)
       \<and> im_mode (canvas img) = ''1'' \<and> im_size (canvas img) = (800, 480))"
proof -
  note r = template_render [of "(800, 480)"]
  have f: "files (template_world (800, 480)) (template_path (template_world (800, 480))) =
     Some (ImageFile ''RGB'' (800, 480))"
    by (simp add: template_path_def PIC_DIR_def os_path_join_def template_world_def
        sample_world_def)
  from image_size_is_template_size [OF r] f r show ?thesis by simp
qed

lemma digit_char_not_point: "d < 10 \<Longrightarrow> digit_char d \<noteq> CHR ''.''"
proof -
  assume "d < 10"
  then have "d \<in> {0, 1, 2, 3, 4, 5, 6, 7, 8, 9}" by auto
  then show ?thesis by (auto simp: digit_char_def)
qed

lemma decimal_digits_no_point: "CHR ''.'' \<notin> set (decimal_digits n)"
proof (induction n rule: decimal_digits.induct)
  case (1 n)
  have d: "digit_char (n mod 10) \<noteq> CHR ''.''" by (rule digit_char_not_point) simp
  have eq: "decimal_digits n =
      (if 10 \<le> n then decimal_digits (n div 10) else []) @ [digit_char (n mod 10)]"
    by (rule decimal_digits.simps)
  show ?case using 1 d by (subst eq) (simp del: decimal_digits.simps)
qed

lemma decimal_places_none: "CHR ''.'' \<notin> set s \<Longrightarrow> decimal_places s = 0"
  by (simp add: decimal_places_def)

lemma decimal_places_append:
  assumes "CHR ''.'' \<notin> set b"
  shows "decimal_places (a @ ''.'' @ b) = length b"
proof -
  have "\<And>x. x \<in> set (rev b) \<Longrightarrow> x \<noteq> CHR ''.''" using assms by auto
  then have "takeWhile (\<lambda>c. c \<noteq> CHR ''.'') (rev b @ CHR ''.'' # rev a) =
      rev b @ takeWhile (\<lambda>c. c \<noteq> CHR ''.'') (CHR ''.'' # rev a)"
    by (rule takeWhile_append2)
  then show ?thesis by (simp add: decimal_places_def)
qed

lemma format_fixed_0_places: "decimal_places (format_fixed 0 x) = 0"
  by (cases x) (simp_all add: decimal_places_none decimal_digits_no_point Let_def
      del: decimal_digits.simps split: prod.splits)

lemma str_of_int_places: "decimal_places (str_of_int i) = 0"
  by (simp add: decimal_places_none decimal_digits_no_point str_of_int_def
      del: decimal_digits.simps)

lemma format_fixed_1_places: "decimal_places (format_fixed 1 (FFinite s m e)) = 1"
proof -
  define k where "k = (case float_fraction m e of (n, d) \<Rightarrow> round_half_even (n * 10) d)"
  have small: "decimal_digits (k mod 10) = [digit_char (k mod 10)]" by simp
  have "digit_char (k mod 10) \<noteq> CHR ''.''" by (rule digit_char_not_point) simp
  then have "decimal_places (((if s then ''-'' else []) @ decimal_digits (k div 10)) @ ''.''
      @ [digit_char (k mod 10)]) = 1"
    by (subst decimal_places_append) simp_all
  then show ?thesis
    by (simp add: Let_def k_def [symmetric] small del: decimal_digits.simps)
qed

text \<open>
  Claim C2. For a reading with float temperatures, precipitation and wind and an integer
  humidity, the texts drawn are the labels around \<^verbatim>\<open>.0f\<close> of the temperatures and of the
  precipitation, \<^verbatim>\<open>str\<close> of the humidity and \<^verbatim>\<open>.1f\<close> of the wind: no decimals, except one
  for the wind. The doubles 21.6, 3.42 and 17.0 give \<open>22\<degree>C\<close>, \<open>3.4 m/s\<close> and \<open>17%\<close>. The
  reading that the Projector returns holds the doubles themselves, unrounded.
\<close>

theorem texts_are_rounded_at_draw_time:
  "(map_of d ''report'' = Some (PStr rp)
      \<and> map_of d ''precip_percent'' = Some (PFloat pp)
      \<and> map_of d ''temp_current'' = Some (PFloat tc)
      \<and> map_of d ''feels_like'' = Some (PFloat fl)
      \<and> map_of d ''temp_max'' = Some (PFloat tmx)
      \<and> map_of d ''temp_min'' = Some (PFloat tmn)
      \<and> map_of d ''humidity'' = Some (PInt hu)
      \<and> map_of d ''wind'' = Some (PFloat wi) \<longrightarrow>
    text_overlays w (PDict d) =
      map Inr
        [Drawn (30, 200) (''Now: '' @ rp) 22 0,
         Drawn (30, 240) (''Precip: '' @ format_fixed 0 pp @ ''%'') 30 0,
         Drawn (375, 35) (format_fixed 0 tc @ degree_C) 160 0,
         Drawn (350, 210) (''Feels like: '' @ format_fixed 0 fl @ degree_C) 50 0,
         Drawn (35, 325) (''High: '' @ format_fixed 0 tmx @ degree_C) 50 0,
         Drawn (35, 390) (''Low: '' @ format_fixed 0 tmn @ degree_C) 50 0,
         Drawn (345, 340) (''Humidity: '' @ str_of_int hu @ ''%'') 30 0,
         Drawn (345, 400) (''Wind: '' @ format_fixed 1 wi @ '' m/s'') 30 0,
         Drawn (627, 330) ''UPDATED'' 35 255,
         Drawn (627, 375) (strftime_HM (clock w)) 60 255])
   \<and> decimal_places (format_fixed 0 x) = 0
   \<and> decimal_places (str_of_int hu) = 0
   \<and> decimal_places (format_fixed 1 (FFinite s m e)) = 1
   \<and> format_fixed 0 float_21_6 @ degree_C = ''22'' @ degree_C
   \<and> format_fixed 1 float_3_42 @ '' m/s'' = ''3.4 m/s''
   \<and> format_fixed 0 float_17_0 @ ''%'' = ''17%''
   \<and> snd (process_weather_data (PDict sample_root)) = Inr sample_reading
   \<and> getitem sample_reading (KStr ''temp_current'') = Inr (PFloat float_21_6)
   \<and> getitem sample_reading (KStr ''wind'') = Inr (PFloat float_3_42)"
proof (intro conjI impI)
  assume "map_of d ''report'' = Some (PStr rp)
      \<and> map_of d ''precip_percent'' = Some (PFloat pp)
      \<and> map_of d ''temp_current'' = Some (PFloat tc)
      \<and> map_of d ''feels_like'' = Some (PFloat fl)
      \<and> map_of d ''temp_max'' = Some (PFloat tmx)
      \<and> map_of d ''temp_min'' = Some (PFloat tmn)
      \<and> map_of d ''humidity'' = Some (PInt hu)
      \<and> map_of d ''wind'' = Some (PFloat wi)"
  then show "text_overlays w (PDict d) =
      map Inr
        [Drawn (30, 200) (''Now: '' @ rp) 22 0,
         Drawn (30, 240) (''Precip: '' @ format_fixed 0 pp @ ''%'') 30 0,
         Drawn (375, 35) (format_fixed 0 tc @ degree_C) 160 0,
         Drawn (350, 210) (''Feels like: '' @ format_fixed 0 fl @ degree_C) 50 0,
         Drawn (35, 325) (''High: '' @ format_fixed 0 tmx @ degree_C) 50 0,
         Drawn (35, 390) (''Low: '' @ format_fixed 0 tmn @ degree_C) 50 0,
         Drawn (345, 340) (''Humidity: '' @ str_of_int hu @ ''%'') 30 0,
         Drawn (345, 400) (''Wind: '' @ format_fixed 1 wi @ '' m/s'') 30 0,
         Drawn (627, 330) ''UPDATED'' 35 255,
         Drawn (627, 375) (strftime_HM (clock w)) 60 255]"
    by (simp add: text_overlays_def COLOR_BLACK_def COLOR_WHITE_def del: format_fixed.simps)
next
  show "decimal_places (format_fixed 0 x) = 0" by (rule format_fixed_0_places)
  show "decimal_places (str_of_int hu) = 0" by (rule str_of_int_places)
  show "decimal_places (format_fixed 1 (FFinite s m e)) = 1" by (rule format_fixed_1_places)
  show "format_fixed 0 float_21_6 @ degree_C = ''22'' @ degree_C"
    by (simp add: float_21_6_def float_simps)
  show "format_fixed 1 float_3_42 @ '' m/s'' = ''3.4 m/s''"
    by (simp add: float_3_42_def float_simps)
  show "format_fixed 0 float_17_0 @ ''%'' = ''17%''"
    by (simp add: float_17_0_def float_simps)
  show "snd (process_weather_data (PDict sample_root)) = Inr sample_reading"
    by (simp add: sample_projection)
  show "getitem sample_reading (KStr ''temp_current'') = Inr (PFloat float_21_6)"
    by (simp add: sample_reading_def)
  show "getitem sample_reading (KStr ''wind'') = Inr (PFloat float_3_42)"
    by (simp add: sample_reading_def)
qed

theorem texts_are_rounded_at_draw_time_witness:
  "text_overlays sample_world sample_reading =
     map Inr
       [Drawn (30, 200) ''Now: Light Rain'' 22 0,
        Drawn (30, 240) ''Precip: 17%'' 30 0,
        Drawn (375, 35) (''22'' @ degree_C) 160 0,
        Drawn (350, 210) (''Feels like: 19'' @ degree_C) 50 0,
        Drawn (35, 325) (''High: 24'' @ degree_C) 50 0,
        Drawn (35, 390) (''Low: 18'' @ degree_C) 50 0,
        Drawn (345, 340) ''Humidity: 64%'' 30 0,
        Drawn (345, 400) ''Wind: 3.4 m/s'' 30 0,
        Drawn (627, 330) ''UPDATED'' 35 255,
        Drawn (627, 375) ''09:05'' 60 255]"
proof -
  obtain d where r: "sample_reading = PDict d"
    and f: "map_of d ''report'' = Some (PStr ''Light Rain'')
      \<and> map_of d ''precip_percent'' = Some (PFloat float_17_0)
      \<and> map_of d ''temp_current'' = Some (PFloat float_21_6)
      \<and> map_of d ''feels_like'' = Some (PFloat float_19_3)
      \<and> map_of d ''temp_max'' = Some (PFloat float_24_1)
      \<and> map_of d ''temp_min'' = Some (PFloat float_18_2)
      \<and> map_of d ''humidity'' = Some (PInt 64)
      \<and> map_of d ''wind'' = Some (PFloat float_3_42)"
    by (auto simp: sample_reading_def)
  have c: "strftime_HM (clock sample_world) = ''09:05''"
    by (simp add: strftime_HM_def pad2_def sample_world_def digit_char_def)
  note t = texts_are_rounded_at_draw_time [of d "''Light Rain''" float_17_0 float_21_6
      float_19_3 float_24_1 float_18_2 64 float_3_42 sample_world, THEN conjunct1, THEN mp, OF f]
  show ?thesis
    unfolding r t c
    by (simp add: sample_floats float_simps str_of_int_def)
qed

end
